theory Spec2Isabelle
  imports Main "HOL-Library.Sublist"
begin

section \<open>Errors\<close>

text \<open>
  The status codes of gRPC (package \<^verbatim>\<open>google.golang.org/grpc/codes\<close>), in their
  numeric order. The join service only ever builds \<^verbatim>\<open>codes.Internal\<close>; the recovery
  test builds \<^verbatim>\<open>codes.Unavailable\<close>.
\<close>

datatype Codes = OK | Canceled | Unknown | InvalidArgument | DeadlineExceeded | NotFound
  | AlreadyExists | PermissionDenied | ResourceExhausted | FailedPrecondition | Aborted
  | OutOfRange | Unimplemented | Internal | Unavailable | DataLoss | Unauthenticated

text \<open>
  A Go \<^verbatim>\<open>error\<close> value as the sources build it: \<^verbatim>\<open>errors.New(msg)\<close> or
  \<^verbatim>\<open>status.Error(code, msg)\<close>. The \<^verbatim>\<open>nil\<close> error is \<open>None\<close> of
  \<open>go_error option\<close>.
\<close>

datatype go_error = ErrorsNew string | GrpcStatus Codes string

section \<open>Recovery orchestrator\<close>

subsection \<open>The errors of \<^verbatim>\<open>TestRecover\<close> and its stub doer\<close>

text \<open>
  \<^verbatim>\<open>recover_test.go\<close>, lines 65 to 67:
  \<^verbatim>\<open>someErr := errors.New("error")\<close>,
  \<^verbatim>\<open>unavailableErr := grpcstatus.Error(codes.Unavailable, "unavailable")\<close>,
  \<^verbatim>\<open>lbErr := grpcstatus.Error(codes.Unavailable, `connection error: desc = "transport: authentication handshake failed: read tcp`)\<close>.
  Note that the load-balancer error carries the code \<^verbatim>\<open>Unavailable\<close> as well: only its
  message tells it apart.
\<close>

definition someErr :: go_error where
  "someErr = ErrorsNew ''error''"

definition unavailableErr :: go_error where
  "unavailableErr = GrpcStatus Unavailable ''unavailable''"

definition lbErr :: go_error where
  "lbErr = GrpcStatus Unavailable
     ''connection error: desc = \"transport: authentication handshake failed: read tcp''"

text \<open>
  \<^verbatim>\<open>stubDoer.Do\<close> (lines 285 to 293) hands out the errors of \<^verbatim>\<open>returns\<close> one per
  call. The last one is replaced, once handed out, by a fresh \<^verbatim>\<open>Unavailable\<close> status,
  so the slice never becomes empty and every later call answers "unavailable".
  The state of the stub is the slice; \<open>None\<close> is the index panic of \<^verbatim>\<open>d.returns[0]\<close>
  on an empty slice. The stub ignores the endpoint (\<^verbatim>\<open>setURIs\<close> does nothing).
\<close>

fun Do :: "go_error option list \<Rightarrow> (go_error option \<times> go_error option list) option" where
  "Do [] = None"
| "Do (err # rest) =
     Some (err, if length (err # rest) > 1 then rest
                else [Some (GrpcStatus Unavailable ''unavailable'')])"

definition stubDoer :: "go_error option list \<Rightarrow> 'e \<Rightarrow> (go_error option \<times> go_error option list) option" where
  "stubDoer returns endpoint = Do returns"

subsection \<open>The retry state machine\<close>

text \<open>
  The command's own loop (\<^verbatim>\<open>recover.go\<close>) and the predicates that recognise a
  retryable error are not among the sources studied here; only their test is. They are
  modelled from the specification, section 4.5, and run against the stub and the test
  table of the sources.
\<close>

datatype Outcome = Success | TransportUnavailable | HandshakeFailure | Fatal

text \<open>
  Modelled from the spec: the classification of one attempt's outcome (the retry
  predicates of the command are missing). No error is a success; a transport handshake
  failure pattern characteristic of a load balancer is the load-balancer churn; a
  transport-unavailable condition is the gRPC code \<^verbatim>\<open>Unavailable\<close>; any other error is
  fatal. The specification names the handshake pattern without giving it, so the
  pattern on the status message is the parameter \<open>lbPattern\<close>. The churn is looked for
  first, since it must not count against the unavailable budget.
\<close>

definition classify :: "(string \<Rightarrow> bool) \<Rightarrow> go_error option \<Rightarrow> Outcome" where
  "classify lbPattern err =
     (case err of
        None \<Rightarrow> Success
      | Some (ErrorsNew msg) \<Rightarrow> Fatal
      | Some (GrpcStatus c msg) \<Rightarrow>
          if c = Unavailable \<and> lbPattern msg then HandshakeFailure
          else if c = Unavailable then TransportUnavailable
          else Fatal)"

text \<open>
  What a finished loop hands back: the count of successful recoveries, the fatal error
  if there was one, the endpoints attempted in order, and the doer's final state.
\<close>

record ('e, 'd) Recovery =
  successes :: nat
  failure :: "go_error option"
  attempted :: "'e list"
  doer :: 'd

datatype ('e, 'd) LoopResult = Finished "('e, 'd) Recovery" | DoerPanicked

text \<open>
  Modelled from the spec: the recovery loop of section 4.5 (\<^verbatim>\<open>recover.go\<close> is missing).
  Its state is the current endpoint, the consecutive-unavailable counter and the
  accumulated success count; \<open>push\<close> is one attempt at an endpoint and \<open>advance\<close> the
  injected address-advance function.
  \<^item> Success: record it, advance to the next endpoint, reset the counter to zero.
  \<^item> Transport unavailable: retried once at the same endpoint; the second consecutive
    one ends the whole loop without error.
  \<^item> Load-balancer churn: retry the same endpoint, the counter untouched.
  \<^item> Fatal: end the loop with the error and the count so far.
  The churn is retried without bound, so the loop need not return: \<open>None\<close> is the run
  that never ends. Cancellation and the per-attempt timeout are not modelled.
\<close>

partial_function (option) recoverLoop ::
  "(string \<Rightarrow> bool) \<Rightarrow> ('d \<Rightarrow> 'e \<Rightarrow> (go_error option \<times> 'd) option) \<Rightarrow> ('e \<Rightarrow> 'e) \<Rightarrow>
   'd \<Rightarrow> 'e \<Rightarrow> nat \<Rightarrow> nat \<Rightarrow> 'e list \<Rightarrow> ('e, 'd) LoopResult option" where
  "recoverLoop lbPattern push advance d endpoint unavailableCount ctr tr =
     (case push d endpoint of
        None \<Rightarrow> Some DoerPanicked
      | Some (err, d') \<Rightarrow>
          (case classify lbPattern err of
             Success \<Rightarrow>
               recoverLoop lbPattern push advance d' (advance endpoint) 0 (ctr + 1)
                 (tr @ [endpoint])
           | TransportUnavailable \<Rightarrow>
               if unavailableCount = 0
               then recoverLoop lbPattern push advance d' endpoint 1 ctr (tr @ [endpoint])
               else Some (Finished \<lparr>successes = ctr, failure = None,
                                     attempted = tr @ [endpoint], doer = d'\<rparr>)
           | HandshakeFailure \<Rightarrow>
               recoverLoop lbPattern push advance d' endpoint unavailableCount ctr
                 (tr @ [endpoint])
           | Fatal \<Rightarrow>
               Some (Finished \<lparr>successes = ctr, failure = err,
                                attempted = tr @ [endpoint], doer = d'\<rparr>)))"

text \<open>
  Modelled from the spec: a recovery run (the command itself is missing) starts the loop
  at the given endpoint with no success counted and the unavailable retry unused.
\<close>

definition recover ::
  "(string \<Rightarrow> bool) \<Rightarrow> ('d \<Rightarrow> 'e \<Rightarrow> (go_error option \<times> 'd) option) \<Rightarrow> ('e \<Rightarrow> 'e) \<Rightarrow>
   'd \<Rightarrow> 'e \<Rightarrow> ('e, 'd) LoopResult option" where
  "recover lbPattern push advance d endpoint =
     recoverLoop lbPattern push advance d endpoint 0 0 []"

text \<open>
  Modelled from the spec: what the command reports on completion (section 6; the
  command's printing is missing). Without error and with no success it reports that no
  control-plane node needs recovery; without error and with successes it reports the
  pushed key with their count; on a fatal error it reports the error with the count of
  nodes recovered before it.
\<close>

datatype Report = Message string | MessageWithCount string nat | ErrorWithCount go_error nat

definition report :: "('e, 'd) Recovery \<Rightarrow> Report" where
  "report r =
     (case failure r of
        Some e \<Rightarrow> ErrorWithCount e (successes r)
      | None \<Rightarrow>
          if successes r = 0
          then Message ''No control-plane nodes in need of recovery found''
          else MessageWithCount ''Pushed recovery key.'' (successes r))"

text \<open>
  A handshake pattern for concrete runs: the status message starts like the
  load-balancer error of the test.
\<close>

definition handshakeFailed :: "string \<Rightarrow> bool" where
  "handshakeFailed msg =
     prefix ''connection error: desc = \"transport: authentication handshake failed'' msg"

section \<open>Join service\<close>

subsection \<open>Messages\<close>

text \<open>
  Go's \<^verbatim>\<open>[]byte\<close> and \<^verbatim>\<open>string\<close> are both byte sequences; a \<open>char\<close> is
  a byte, so both are \<open>string\<close> here and the conversion \<^verbatim>\<open>string(b)\<close> is the identity.
\<close>

type_synonym bytes = string

text \<open>
  The messages of \<^verbatim>\<open>join.proto\<close>. A record field is a constant of its own, so the
  two fields of the rejoin messages that share a name with a field of the join
  messages carry the prefix \<open>Rejoin\<close>.
\<close>

record IssueJoinTicketRequest =
  DiskUuid :: string
  CertificateRequest :: bytes
  IsControlPlane :: bool
  HostPublicKey :: bytes
  HostCertificatePrincipals :: "string list"

record ControlPlaneCertOrKey =
  Name :: string
  Data :: bytes

text \<open>The component list is opaque to the service: it is handed through.\<close>

datatype Components = Components "string list"

record IssueJoinTicketResponse =
  StateDiskKey :: bytes
  MeasurementSalt :: bytes
  MeasurementSecret :: bytes
  KubeletCert :: bytes
  ApiServerEndpoint :: string
  Token :: string
  DiscoveryTokenCaCertHash :: string
  ControlPlaneFiles :: "ControlPlaneCertOrKey list"
  KubernetesVersion :: string
  KubernetesComponents :: Components
  AuthorizedCaPublicKey :: bytes
  HostCertificate :: bytes

record IssueRejoinTicketRequest =
  RejoinDiskUuid :: string

record IssueRejoinTicketResponse =
  RejoinStateDiskKey :: bytes
  RejoinMeasurementSecret :: bytes

subsection \<open>What the service depends on\<close>

text \<open>
  \<^verbatim>\<open>kubeadmv1.BootstrapTokenDiscovery\<close>, the fields the sources read. Its token field
  is \<^verbatim>\<open>Token\<close> in Go; here it is \<open>JoinToken\<close>, the response having a \<open>Token\<close> already.
\<close>

record BootstrapTokenDiscovery =
  JoinToken :: string
  APIServerEndpoint :: string
  CACertHashes :: "string list"

datatype PublicKey = PublicKey bytes

datatype Signer = Signer bytes

text \<open>
  The server struct: the salt and the methods of its four interfaces and of the file
  handler, each a function from its arguments to an error message (\<open>Inl\<close>) or a
  result (\<open>Inr\<close>). An \<^verbatim>\<open>error\<close> of a dependency is only ever printed with \<^verbatim>\<open>%s\<close>, so it
  is its message. \<^verbatim>\<open>AddNodeToJoiningNodes\<close> returns an error only: \<open>None\<close> is
  \<^verbatim>\<open>nil\<close>. A map is returned as the list of its entries in the order in which the
  \<^verbatim>\<open>range\<close> loop visits them. A result returned with a \<^verbatim>\<open>nil\<close> error is taken to be
  a value, never a \<^verbatim>\<open>nil\<close> pointer.
\<close>

record Server =
  measurementSalt :: bytes
  GetJoinToken :: "int \<Rightarrow> string + BootstrapTokenDiscovery"
  GetControlPlaneCertificatesAndKeys :: "string + (string \<times> bytes) list"
  GetDataKey :: "string \<Rightarrow> int \<Rightarrow> string + bytes"
  GetCertificate :: "bytes \<Rightarrow> string + bytes"
  GetNodeNameFromCSR :: "bytes \<Rightarrow> string + string"
  GetK8sComponentsRefFromNodeVersionCRD :: "string \<Rightarrow> string + string"
  GetComponents :: "string \<Rightarrow> string + Components"
  AddNodeToJoiningNodes :: "string \<Rightarrow> string \<Rightarrow> bool \<Rightarrow> string option"
  Read :: "string \<Rightarrow> string + bytes"

text \<open>
  What the imported packages provide. Their sources are not among the files studied,
  so the constants and functions the service and the recovery command use are
  parameters: the constants of \<^verbatim>\<open>attestation\<close>, \<^verbatim>\<open>constants\<close> and \<^verbatim>\<open>crypto\<close>, the key
  derivation and certificate functions of \<^verbatim>\<open>crypto\<close>, and the key functions of
  \<^verbatim>\<open>golang.org/x/crypto/ssh\<close> (\<open>SignerPublicKey\<close> is the method \<^verbatim>\<open>PublicKey()\<close> of a
  signer; a host certificate is a public key of that package).
\<close>

record Imports =
  MeasurementSecretContext :: string
  DerivedKeyLengthDefault :: int
  StateDiskKeyLength :: int
  DEKPrefix :: string
  SSHCAKeySuffix :: string
  SSHAdditionalPrincipalsPath :: string
  KubernetesJoinTokenTTL :: int
  NodeVersionResourceName :: string
  DeriveKey :: "bytes \<Rightarrow> bytes \<Rightarrow> bytes \<Rightarrow> int \<Rightarrow> string + bytes"
  GenerateEmergencySSHCAKey :: "bytes \<Rightarrow> string + Signer"
  GenerateSSHHostCertificate :: "string list \<Rightarrow> PublicKey \<Rightarrow> Signer \<Rightarrow> string + PublicKey"
  ParsePublicKey :: "bytes \<Rightarrow> string + PublicKey"
  MarshalAuthorizedKey :: "PublicKey \<Rightarrow> bytes"
  SignerPublicKey :: "Signer \<Rightarrow> PublicKey"

text \<open>\<^verbatim>\<open>ed25519.SeedSize\<close> of Go's standard library.\<close>

definition SeedSize :: int where
  "SeedSize = 32"

text \<open>
  \<^verbatim>\<open>strings.Split(s, ",")\<close> of Go's standard library, for a separator of one byte: the
  pieces between the separators, a single empty piece for the empty string.
\<close>

fun Split :: "string \<Rightarrow> char \<Rightarrow> string list" where
  "Split [] sep = [[]]"
| "Split (c # cs) sep =
     (if c = sep then [] # Split cs sep
      else (case Split cs sep of [] \<Rightarrow> [[c]] | w # ws \<Rightarrow> (c # w) # ws))"

subsection \<open>What a call of the service does and returns\<close>

text \<open>
  A run of a handler is observed through the calls it makes on its dependencies, with
  their arguments, and the lines it logs, in order.
\<close>

datatype Call =
    CallGetDataKey string int
  | CallGenerateEmergencySSHCAKey bytes
  | CallRead string
  | CallParsePublicKey bytes
  | CallGenerateSSHHostCertificate "string list" PublicKey Signer
  | CallGetJoinToken int
  | CallGetK8sComponentsRefFromNodeVersionCRD string
  | CallGetComponents string
  | CallGetCertificate bytes
  | CallGetControlPlaneCertificatesAndKeys
  | CallGetNodeNameFromCSR bytes
  | CallAddNodeToJoiningNodes string string bool

datatype Event = LogInfo string | LogError string | Call Call

text \<open>
  A handler of type \<^verbatim>\<open>(*Response, error)\<close> returns a pair, each part of which may be
  \<^verbatim>\<open>nil\<close>, or it panics.
\<close>

datatype 'a Result = Return "'a option" "go_error option" | Panic string

type_synonym 'a Run = "Event list \<times> 'a Result"

definition calls :: "'a Run \<Rightarrow> Call list" where
  "calls run = concat (map (\<lambda>e. case e of Call c \<Rightarrow> [c] | _ \<Rightarrow> []) (fst run))"

text \<open>\<^verbatim>\<open>status.Errorf(c, format, err)\<close> for a format that ends in its only verb \<^verbatim>\<open>%s\<close>.\<close>

definition Errorf :: "Codes \<Rightarrow> string \<Rightarrow> string \<Rightarrow> go_error" where
  "Errorf c format err = GrpcStatus c (format @ err)"

text \<open>The events \<open>evs\<close>, then the run \<open>run\<close>.\<close>

definition after :: "Event list \<Rightarrow> 'a Run \<Rightarrow> 'a Run" where
  "after evs run = (evs @ fst run, snd run)"

text \<open>
  The error branch of every step: log the failure, \<^verbatim>\<open>return nil, status.Errorf(...)\<close>.
\<close>

definition failed :: "string \<Rightarrow> go_error \<Rightarrow> 'a Run" where
  "failed logged err = ([LogError logged], Return None (Some err))"

subsection \<open>The handlers\<close>

text \<open>
  \<^verbatim>\<open>getK8sComponentsConfigMapName\<close> (lines 240 to 246) wraps the error of the lookup.
  Its one call is recorded by the handler.
\<close>

definition getK8sComponentsConfigMapName :: "Imports \<Rightarrow> Server \<Rightarrow> string + string" where
  "getK8sComponentsConfigMapName im s =
     (case GetK8sComponentsRefFromNodeVersionCRD s (NodeVersionResourceName im) of
        Inl err \<Rightarrow> Inl (''could not get k8s components config map name: '' @ err)
      | Inr k8sComponentsRef \<Rightarrow> Inr k8sComponentsRef)"

text \<open>
  The return statement of \<^verbatim>\<open>IssueJoinTicket\<close> (lines 198 to 210). The index
  expression \<^verbatim>\<open>kubeArgs.CACertHashes[0]\<close> has no length check: on an empty slice it
  panics. The field \<^verbatim>\<open>KubernetesVersion\<close> is not set and keeps its zero value.
\<close>

definition joinResponse ::
  "Imports \<Rightarrow> Server \<Rightarrow> bytes \<Rightarrow> bytes \<Rightarrow> BootstrapTokenDiscovery \<Rightarrow> bytes \<Rightarrow>
   ControlPlaneCertOrKey list \<Rightarrow> Components \<Rightarrow> Signer \<Rightarrow> PublicKey \<Rightarrow>
   IssueJoinTicketResponse Result" where
  "joinResponse im s stateDiskKey measurementSecret kubeArgs kubeletCert controlPlaneFiles
      components ca hostCertificate =
     (case CACertHashes kubeArgs of
        [] \<Rightarrow> Panic ''runtime error: index out of range [0] with length 0''
      | hash # _ \<Rightarrow>
          Return (Some \<lparr>
            StateDiskKey = stateDiskKey,
            MeasurementSalt = measurementSalt s,
            MeasurementSecret = measurementSecret,
            KubeletCert = kubeletCert,
            ApiServerEndpoint = APIServerEndpoint kubeArgs,
            Token = JoinToken kubeArgs,
            DiscoveryTokenCaCertHash = hash,
            ControlPlaneFiles = controlPlaneFiles,
            KubernetesVersion = [],
            KubernetesComponents = components,
            AuthorizedCaPublicKey = MarshalAuthorizedKey im (SignerPublicKey im ca),
            HostCertificate = MarshalAuthorizedKey im hostCertificate\<rparr>) None)"

text \<open>
  The tail of \<^verbatim>\<open>IssueJoinTicket\<close> from line 186 on: the node name, the registration,
  the response.
\<close>

definition registerAndRespond ::
  "Imports \<Rightarrow> Server \<Rightarrow> IssueJoinTicketRequest \<Rightarrow> bytes \<Rightarrow> bytes \<Rightarrow>
   BootstrapTokenDiscovery \<Rightarrow> bytes \<Rightarrow> ControlPlaneCertOrKey list \<Rightarrow> Components \<Rightarrow> string \<Rightarrow>
   Signer \<Rightarrow> PublicKey \<Rightarrow> IssueJoinTicketResponse Run" where
  "registerAndRespond im s req stateDiskKey measurementSecret kubeArgs kubeletCert
      controlPlaneFiles components componentsConfigMapName ca hostCertificate =
     after [Call (CallGetNodeNameFromCSR (CertificateRequest req))]
     (case GetNodeNameFromCSR s (CertificateRequest req) of
        Inl err \<Rightarrow>
          failed ''Failed getting node name from CSR''
            (Errorf Internal ''getting node name from CSR: '' err)
      | Inr nodeName \<Rightarrow>
     after [Call (CallAddNodeToJoiningNodes nodeName componentsConfigMapName (IsControlPlane req))]
     (case AddNodeToJoiningNodes s nodeName componentsConfigMapName (IsControlPlane req) of
        Some err \<Rightarrow>
          failed ''Failed adding node to joining nodes''
            (Errorf Internal ''adding node to joining nodes: '' err)
      | None \<Rightarrow>
          ([LogInfo ''IssueJoinTicket successful''],
           joinResponse im s stateDiskKey measurementSecret kubeArgs kubeletCert
             controlPlaneFiles components ca hostCertificate)))"

text \<open>
  The middle of \<^verbatim>\<open>IssueJoinTicket\<close>, lines 141 to 184: the join token, the components,
  the kubelet certificate and, for a control-plane node, the control-plane files.
\<close>

definition tokenComponentsAndKubelet ::
  "Imports \<Rightarrow> Server \<Rightarrow> IssueJoinTicketRequest \<Rightarrow> bytes \<Rightarrow> bytes \<Rightarrow> Signer \<Rightarrow> PublicKey \<Rightarrow>
   IssueJoinTicketResponse Run" where
  "tokenComponentsAndKubelet im s req stateDiskKey measurementSecret ca hostCertificate =
     after [LogInfo ''Creating Kubernetes join token'',
            Call (CallGetJoinToken (KubernetesJoinTokenTTL im))]
     (case GetJoinToken s (KubernetesJoinTokenTTL im) of
        Inl err \<Rightarrow>
          failed ''Failed to generate Kubernetes join arguments''
            (Errorf Internal ''generating Kubernetes join arguments: '' err)
      | Inr kubeArgs \<Rightarrow>
     after [LogInfo ''Querying NodeVersion custom resource for components ConfigMap name'',
            Call (CallGetK8sComponentsRefFromNodeVersionCRD (NodeVersionResourceName im))]
     (case getK8sComponentsConfigMapName im s of
        Inl err \<Rightarrow>
          failed ''Failed getting components ConfigMap name''
            (Errorf Internal ''getting components ConfigMap name: '' err)
      | Inr componentsConfigMapName \<Rightarrow>
     after [LogInfo (''Querying '' @ componentsConfigMapName @ '' ConfigMap for components''),
            Call (CallGetComponents componentsConfigMapName)]
     (case GetComponents s componentsConfigMapName of
        Inl err \<Rightarrow>
          failed ''Failed getting components from ConfigMap''
            (Errorf Internal ''getting components: '' err)
      | Inr components \<Rightarrow>
     after [LogInfo ''Creating signed kubelet certificate'',
            Call (CallGetCertificate (CertificateRequest req))]
     (case GetCertificate s (CertificateRequest req) of
        Inl err \<Rightarrow>
          failed ''Failed generating kubelet certificate''
            (Errorf Internal ''Generating kubelet certificate: '' err)
      | Inr kubeletCert \<Rightarrow>
          if IsControlPlane req
          then
            after [LogInfo ''Loading control plane certificates and keys'',
                   Call CallGetControlPlaneCertificatesAndKeys]
            (case GetControlPlaneCertificatesAndKeys s of
               Inl err \<Rightarrow>
                 failed ''Failed to load control plane certificates and keys''
                   (Errorf Internal ''loading control-plane certificates and keys: '' err)
             | Inr filesMap \<Rightarrow>
                 registerAndRespond im s req stateDiskKey measurementSecret kubeArgs
                   kubeletCert (map (\<lambda>(k, v). \<lparr>Name = k, Data = v\<rparr>) filesMap)
                   components componentsConfigMapName ca hostCertificate)
          else
            registerAndRespond im s req stateDiskKey measurementSecret kubeArgs
              kubeletCert [] components componentsConfigMapName ca hostCertificate))))"

text \<open>
  \<^verbatim>\<open>IssueJoinTicket\<close> (lines 92 to 211), in the order of its statements: every
  \<^verbatim>\<open>if err != nil\<close> is a \<open>case\<close> whose \<open>Inl\<close> branch logs and returns
  \<^verbatim>\<open>nil, status.Errorf(codes.Internal, ...)\<close>. The body is cut in three at lines 141
  and 186 to keep each definition readable; the peer address of the log lines is left
  out.
\<close>

definition IssueJoinTicket ::
  "Imports \<Rightarrow> Server \<Rightarrow> IssueJoinTicketRequest \<Rightarrow> IssueJoinTicketResponse Run" where
  "IssueJoinTicket im s req =
     after [LogInfo ''IssueJoinTicket called'',
            LogInfo ''Requesting measurement secret'',
            Call (CallGetDataKey (MeasurementSecretContext im) (DerivedKeyLengthDefault im))]
     (case GetDataKey s (MeasurementSecretContext im) (DerivedKeyLengthDefault im) of
        Inl err \<Rightarrow>
          failed ''Failed to get measurement secret''
            (Errorf Internal ''getting measurement secret: '' err)
      | Inr measurementSecret \<Rightarrow>
     after [LogInfo ''Requesting disk encryption key'',
            Call (CallGetDataKey (DiskUuid req) (StateDiskKeyLength im))]
     (case GetDataKey s (DiskUuid req) (StateDiskKeyLength im) of
        Inl err \<Rightarrow>
          failed ''Failed to get key for stateful disk''
            (Errorf Internal ''getting key for stateful disk: '' err)
      | Inr stateDiskKey \<Rightarrow>
     after [LogInfo ''Requesting emergency SSH CA derivation key'',
            Call (CallGetDataKey (SSHCAKeySuffix im) SeedSize)]
     (case GetDataKey s (SSHCAKeySuffix im) SeedSize of
        Inl err \<Rightarrow>
          failed ''Failed to get seed material to derive SSH CA key''
            (Errorf Internal ''getting emergency SSH CA seed material: '' err)
      | Inr sshCAKeySeed \<Rightarrow>
     after [Call (CallGenerateEmergencySSHCAKey sshCAKeySeed)]
     (case GenerateEmergencySSHCAKey im sshCAKeySeed of
        Inl err \<Rightarrow>
          failed ''Failed to derive ssh CA key from seed material''
            (Errorf Internal ''generating ssh emergency CA key: '' err)
      | Inr ca \<Rightarrow>
     after [Call (CallRead (SSHAdditionalPrincipalsPath im))]
     (case Read s (SSHAdditionalPrincipalsPath im) of
        Inl err \<Rightarrow>
          failed ''Failed to read additional principals file''
            (Errorf Internal ''reading additional principals file: '' err)
      | Inr additionalPrincipals \<Rightarrow>
     (let principalList = HostCertificatePrincipals req @ Split additionalPrincipals CHR '','' in
     after [Call (CallParsePublicKey (HostPublicKey req))]
     (case ParsePublicKey im (HostPublicKey req) of
        Inl err \<Rightarrow>
          failed ''Failed to parse host public key''
            (Errorf Internal ''unmarshalling host public key: '' err)
      | Inr publicKey \<Rightarrow>
     after [Call (CallGenerateSSHHostCertificate principalList publicKey ca)]
     (case GenerateSSHHostCertificate im principalList publicKey ca of
        Inl err \<Rightarrow>
          failed ''Failed to generate and sign SSH host key''
            (Errorf Internal ''generating and signing SSH host key: '' err)
      | Inr hostCertificate \<Rightarrow>
          tokenComponentsAndKubelet im s req stateDiskKey measurementSecret ca
            hostCertificate))))))))"

text \<open>\<^verbatim>\<open>IssueRejoinTicket\<close> (lines 214 to 237).\<close>

definition IssueRejoinTicket ::
  "Imports \<Rightarrow> Server \<Rightarrow> IssueRejoinTicketRequest \<Rightarrow> IssueRejoinTicketResponse Run" where
  "IssueRejoinTicket im s req =
     after [LogInfo ''IssueRejoinTicket called'',
            LogInfo ''Requesting measurement secret'',
            Call (CallGetDataKey (MeasurementSecretContext im) (DerivedKeyLengthDefault im))]
     (case GetDataKey s (MeasurementSecretContext im) (DerivedKeyLengthDefault im) of
        Inl err \<Rightarrow>
          failed ''Unable to get measurement secret''
            (Errorf Internal ''unable to get measurement secret: '' err)
      | Inr measurementSecret \<Rightarrow>
     after [LogInfo ''Requesting disk encryption key'',
            Call (CallGetDataKey (RejoinDiskUuid req) (StateDiskKeyLength im))]
     (case GetDataKey s (RejoinDiskUuid req) (StateDiskKeyLength im) of
        Inl err \<Rightarrow>
          failed ''Unable to get key for stateful disk''
            (Errorf Internal ''unable to get key for stateful disk: '' err)
      | Inr stateDiskKey \<Rightarrow>
          ([LogInfo ''IssueRejoinTicket successful''],
           Return (Some \<lparr>RejoinStateDiskKey = stateDiskKey,
                         RejoinMeasurementSecret = measurementSecret\<rparr>) None)))"

subsection \<open>The state disk key of the recovery command\<close>

text \<open>
  \<^verbatim>\<open>getStateDiskKeyFunc\<close> of \<^verbatim>\<open>recover_test.go\<close> (lines 263 to 267): the closure over the
  master secret and the salt that derives the key of a disk from its UUID.

  Modelled from the spec: the key derivation itself (\<^verbatim>\<open>crypto.DeriveKey\<close>, missing) is
  the specification's key-derivation oracle, which given a master secret and a context
  label deterministically derives a byte key of the requested length: a function
  \<open>DeriveKey\<close> of the secret, the salt, the label and the length, and of nothing else.
\<close>

definition getStateDiskKeyFunc :: "Imports \<Rightarrow> bytes \<Rightarrow> bytes \<Rightarrow> string \<Rightarrow> string + bytes" where
  "getStateDiskKeyFunc im masterKey salt uuid =
     DeriveKey im masterKey salt (DEKPrefix im @ uuid) (StateDiskKeyLength im)"

subsection \<open>Observations on a run\<close>

text \<open>
  Whether a recorded call failed: the dependency, asked again with the recorded
  arguments, answers with an error.
\<close>

fun callFails :: "Imports \<Rightarrow> Server \<Rightarrow> Call \<Rightarrow> bool" where
  "callFails im s (CallGetDataKey uuid n) = isl (GetDataKey s uuid n)"
| "callFails im s (CallGenerateEmergencySSHCAKey seed) = isl (GenerateEmergencySSHCAKey im seed)"
| "callFails im s (CallRead path) = isl (Read s path)"
| "callFails im s (CallParsePublicKey k) = isl (ParsePublicKey im k)"
| "callFails im s (CallGenerateSSHHostCertificate ps k ca) = isl (GenerateSSHHostCertificate im ps k ca)"
| "callFails im s (CallGetJoinToken ttl) = isl (GetJoinToken s ttl)"
| "callFails im s (CallGetK8sComponentsRefFromNodeVersionCRD n) = isl (GetK8sComponentsRefFromNodeVersionCRD s n)"
| "callFails im s (CallGetComponents n) = isl (GetComponents s n)"
| "callFails im s (CallGetCertificate csr) = isl (GetCertificate s csr)"
| "callFails im s CallGetControlPlaneCertificatesAndKeys = isl (GetControlPlaneCertificatesAndKeys s)"
| "callFails im s (CallGetNodeNameFromCSR csr) = isl (GetNodeNameFromCSR s csr)"
| "callFails im s (CallAddNodeToJoiningNodes n r cp) = (AddNodeToJoiningNodes s n r cp \<noteq> None)"


fun isRegistration :: "Call \<Rightarrow> bool" where
  "isRegistration (CallAddNodeToJoiningNodes n r cp) = True"
| "isRegistration c = False"


text \<open>
  The handler returned \<^verbatim>\<open>nil\<close> and a status of code \<^verbatim>\<open>Internal\<close>.
\<close>

fun isError :: "'a Result \<Rightarrow> bool" where
  "isError (Return None (Some (GrpcStatus c msg))) = (c = Internal)"
| "isError r = False"

text \<open>
  The three ways a call of a handler can end: an error and no response, a response
  and no error, or a panic. A response together with an error, or neither, would be
  the fourth and fifth.
\<close>

fun wellFormed :: "'a Result \<Rightarrow> bool" where
  "wellFormed (Return None (Some (GrpcStatus c msg))) = (c = Internal)"
| "wellFormed (Return (Some resp) None) = True"
| "wellFormed (Panic msg) = True"
| "wellFormed r = False"


text \<open>
  The arguments the body of \<^verbatim>\<open>IssueJoinTicket\<close> passes to each call: the three key
  requests with their labels and lengths, the seed returned for the SSH CA, the path
  of the principals file, the host public key and certificate request of the request,
  the principals of the request followed by those of the file, the node name found in
  the request and the components reference resolved before.
\<close>

fun expectedCall :: "Imports \<Rightarrow> Server \<Rightarrow> IssueJoinTicketRequest \<Rightarrow> Call \<Rightarrow> bool" where
  "expectedCall im s req (CallGetDataKey uuid n) =
     ((uuid, n) \<in> set [(MeasurementSecretContext im, DerivedKeyLengthDefault im),
                       (DiskUuid req, StateDiskKeyLength im),
                       (SSHCAKeySuffix im, SeedSize)])"
| "expectedCall im s req (CallGenerateEmergencySSHCAKey seed) =
     (GetDataKey s (SSHCAKeySuffix im) SeedSize = Inr seed)"
| "expectedCall im s req (CallRead path) = (path = SSHAdditionalPrincipalsPath im)"
| "expectedCall im s req (CallParsePublicKey k) = (k = HostPublicKey req)"
| "expectedCall im s req (CallGenerateSSHHostCertificate principals k ca) =
     ((case Read s (SSHAdditionalPrincipalsPath im) of
         Inl err \<Rightarrow> False
       | Inr additionalPrincipals \<Rightarrow>
           principals = HostCertificatePrincipals req @ Split additionalPrincipals CHR '','')
      \<and> ParsePublicKey im (HostPublicKey req) = Inr k
      \<and> (case GetDataKey s (SSHCAKeySuffix im) SeedSize of
           Inl err \<Rightarrow> False
         | Inr seed \<Rightarrow> GenerateEmergencySSHCAKey im seed = Inr ca))"
| "expectedCall im s req (CallGetJoinToken ttl) = (ttl = KubernetesJoinTokenTTL im)"
| "expectedCall im s req (CallGetK8sComponentsRefFromNodeVersionCRD name) =
     (name = NodeVersionResourceName im)"
| "expectedCall im s req (CallGetComponents name) =
     (getK8sComponentsConfigMapName im s = Inr name)"
| "expectedCall im s req (CallGetCertificate csr) = (csr = CertificateRequest req)"
| "expectedCall im s req CallGetControlPlaneCertificatesAndKeys = IsControlPlane req"
| "expectedCall im s req (CallGetNodeNameFromCSR csr) = (csr = CertificateRequest req)"
| "expectedCall im s req (CallAddNodeToJoiningNodes name ref cp) =
     (GetNodeNameFromCSR s (CertificateRequest req) = Inr name
      \<and> getK8sComponentsConfigMapName im s = Inr ref
      \<and> cp = IsControlPlane req)"

text \<open>The code of the status a handler returned, if it returned one.\<close>

fun statusCode :: "'a Result \<Rightarrow> Codes option" where
  "statusCode (Return resp (Some (GrpcStatus c msg))) = Some c"
| "statusCode r = None"

text \<open>
  The handler got as far as its return statement: it logged
  \<^verbatim>\<open>IssueJoinTicket successful\<close> (line 197).
\<close>

definition reachedResponse :: "'a Run \<Rightarrow> bool" where
  "reachedResponse run = (LogInfo ''IssueJoinTicket successful'' \<in> set (fst run))"

text \<open>
  What the return statement does with the join token \<open>kubeArgs\<close>: it panics on an
  empty hash list, and returns a response with the first hash otherwise.
\<close>

definition respondsOrPanics :: "BootstrapTokenDiscovery \<Rightarrow> IssueJoinTicketResponse Result \<Rightarrow> bool" where
  "respondsOrPanics kubeArgs r =
     ((CACertHashes kubeArgs = [] \<longrightarrow>
         r = Panic ''runtime error: index out of range [0] with length 0'')
      \<and> (CACertHashes kubeArgs \<noteq> [] \<longrightarrow>
         (\<exists>resp. r = Return (Some resp) None \<and>
                 DiscoveryTokenCaCertHash resp = hd (CACertHashes kubeArgs))))"

text \<open>A call without its arguments.\<close>

datatype Step =
    StepGetDataKey
  | StepGenerateEmergencySSHCAKey
  | StepRead
  | StepParsePublicKey
  | StepGenerateSSHHostCertificate
  | StepGetJoinToken
  | StepGetK8sComponentsRefFromNodeVersionCRD
  | StepGetComponents
  | StepGetCertificate
  | StepGetControlPlaneCertificatesAndKeys
  | StepGetNodeNameFromCSR
  | StepAddNodeToJoiningNodes

fun stepOf :: "Call \<Rightarrow> Step" where
  "stepOf (CallGetDataKey uuid n) = StepGetDataKey"
| "stepOf (CallGenerateEmergencySSHCAKey seed) = StepGenerateEmergencySSHCAKey"
| "stepOf (CallRead path) = StepRead"
| "stepOf (CallParsePublicKey k) = StepParsePublicKey"
| "stepOf (CallGenerateSSHHostCertificate ps k ca) = StepGenerateSSHHostCertificate"
| "stepOf (CallGetJoinToken ttl) = StepGetJoinToken"
| "stepOf (CallGetK8sComponentsRefFromNodeVersionCRD n) = StepGetK8sComponentsRefFromNodeVersionCRD"
| "stepOf (CallGetComponents n) = StepGetComponents"
| "stepOf (CallGetCertificate csr) = StepGetCertificate"
| "stepOf CallGetControlPlaneCertificatesAndKeys = StepGetControlPlaneCertificatesAndKeys"
| "stepOf (CallGetNodeNameFromCSR csr) = StepGetNodeNameFromCSR"
| "stepOf (CallAddNodeToJoiningNodes n r cp) = StepAddNodeToJoiningNodes"


text \<open>
  The order of the calls in the body of \<^verbatim>\<open>IssueJoinTicket\<close>, as the statements
  stand in the source.
\<close>

definition stepOrder :: "bool \<Rightarrow> Step list" where
  "stepOrder isControlPlane =
     [StepGetDataKey, StepGetDataKey, StepGetDataKey,
      StepGenerateEmergencySSHCAKey, StepRead, StepParsePublicKey,
      StepGenerateSSHHostCertificate,
      StepGetJoinToken,
      StepGetK8sComponentsRefFromNodeVersionCRD, StepGetComponents,
      StepGetCertificate]
     @ (if isControlPlane then [StepGetControlPlaneCertificatesAndKeys] else [])
     @ [StepGetNodeNameFromCSR, StepAddNodeToJoiningNodes]"


text \<open>
  The order of the specification's request states, following its words: the secrets
  are derived (1), the certificates, host and kubelet, are issued (2), the components
  reference is resolved and the components fetched (3), the node is registered (4).
  Calls that belong to none of these have no rank.
\<close>

fun specRank :: "Step \<Rightarrow> nat option" where
  "specRank StepGetDataKey = Some 1"
| "specRank StepGenerateSSHHostCertificate = Some 2"
| "specRank StepGetCertificate = Some 2"
| "specRank StepGetK8sComponentsRefFromNodeVersionCRD = Some 3"
| "specRank StepGetComponents = Some 3"
| "specRank StepAddNodeToJoiningNodes = Some 4"
| "specRank step = None"


text \<open>
  The same with the kubelet certificate in the place the source gives it: secrets (1),
  host certificate (2), components (3), kubelet certificate (4), registration (5).
\<close>

fun codeRank :: "Step \<Rightarrow> nat option" where
  "codeRank StepGetDataKey = Some 1"
| "codeRank StepGenerateSSHHostCertificate = Some 2"
| "codeRank StepGetK8sComponentsRefFromNodeVersionCRD = Some 3"
| "codeRank StepGetComponents = Some 3"
| "codeRank StepGetCertificate = Some 4"
| "codeRank StepAddNodeToJoiningNodes = Some 5"
| "codeRank step = None"


text \<open>The ranked calls of a run come in non-decreasing rank.\<close>

definition inOrder :: "(Step \<Rightarrow> nat option) \<Rightarrow> Call list \<Rightarrow> bool" where
  "inOrder rank cs = sorted (List.map_filter rank (map stepOf cs))"


subsection \<open>Stand-ins for concrete runs\<close>

text \<open>
  Stand-ins for the imported packages and for the dependencies of the server, for
  concrete runs. The interface methods of the server are stubs, as in a test, and
  every one succeeds. The functions of the packages accept what the real ones accept at
  the inputs used here. \<^verbatim>\<open>ssh.ParsePublicKey\<close> takes the wire format of a public key:
  the stand-in takes that of an ed25519 key, the name \<^verbatim>\<open>ssh-ed25519\<close> and 32 key bytes,
  each after its length in four bytes, and refuses everything else.
  \<^verbatim>\<open>GenerateEmergencySSHCAKey\<close> takes a seed of \<open>SeedSize\<close> bytes, the size the
  handler asks the key getter for. The key getter and the key derivation hand out
  keys of the length asked for. Keys, signers and certificates are represented by
  their key bytes; signatures and the text form of an authorized key are not modelled.
  No theorem about all servers depends on these values.
\<close>

definition ed25519Header :: bytes where
  "ed25519Header =
     [CHR 0x00, CHR 0x00, CHR 0x00, CHR 0x0B] @ ''ssh-ed25519''
     @ [CHR 0x00, CHR 0x00, CHR 0x00, CHR 0x20]"

definition parseEd25519 :: "bytes \<Rightarrow> string + PublicKey" where
  "parseEd25519 b =
     (if take 19 b = ed25519Header \<and> length (drop 19 b) = 32
      then Inr (PublicKey (drop 19 b))
      else Inl ''ssh: not an ed25519 public key'')"

definition padding :: bytes where
  "padding = ''................................''"

definition stubImports :: Imports where
  "stubImports = \<lparr>
     MeasurementSecretContext = ''measurementSecret'',
     DerivedKeyLengthDefault = 32,
     StateDiskKeyLength = 32,
     DEKPrefix = ''key-'',
     SSHCAKeySuffix = ''ca_emergency_ssh'',
     SSHAdditionalPrincipalsPath = ''/var/run/state/ssh/principals'',
     KubernetesJoinTokenTTL = 900,
     NodeVersionResourceName = ''constellation-version'',
     DeriveKey = (\<lambda>secret salt info n. Inr (take (nat n) (info @ salt @ secret @ padding))),
     GenerateEmergencySSHCAKey =
       (\<lambda>seed. if int (length seed) = SeedSize then Inr (Signer seed)
               else Inl ''seed of the wrong size''),
     GenerateSSHHostCertificate = (\<lambda>principals key ca. Inr key),
     ParsePublicKey = parseEd25519,
     MarshalAuthorizedKey = (\<lambda>k. case k of PublicKey b \<Rightarrow> b),
     SignerPublicKey = (\<lambda>ca. case ca of Signer b \<Rightarrow> PublicKey b)\<rparr>"

definition stubServer :: Server where
  "stubServer = \<lparr>
     measurementSalt = ''salt'',
     GetJoinToken = (\<lambda>ttl. Inr \<lparr>JoinToken = ''token'', APIServerEndpoint = ''192.0.2.1:6443'',
                                 CACertHashes = [''sha256:hash'']\<rparr>),
     GetControlPlaneCertificatesAndKeys = Inr [(''ca.key'', ''key'')],
     GetDataKey = (\<lambda>uuid n. Inr (take (nat n) (''key of '' @ uuid @ padding))),
     GetCertificate = (\<lambda>csr. Inr ''kubelet certificate''),
     GetNodeNameFromCSR = (\<lambda>csr. Inr ''node''),
     GetK8sComponentsRefFromNodeVersionCRD = (\<lambda>name. Inr ''k8s-components''),
     GetComponents = (\<lambda>name. Inr (Components [''kubelet''])),
     AddNodeToJoiningNodes = (\<lambda>name ref cp. None),
     Read = (\<lambda>path. Inr ''admin,root'')\<rparr>"

definition stubRequest :: IssueJoinTicketRequest where
  "stubRequest = \<lparr>
     DiskUuid = ''uuid'',
     CertificateRequest = ''request'',
     IsControlPlane = True,
     HostPublicKey = ed25519Header @ ''0123456789abcdef0123456789abcdef'',
     HostCertificatePrincipals = [''node'']\<rparr>"

text \<open>The same server with a certificate authority that finds no node name in the request.\<close>

definition noNodeNameServer :: Server where
  "noNodeNameServer = stubServer\<lparr>GetNodeNameFromCSR := (\<lambda>csr. Inl ''no node name'')\<rparr>"

text \<open>The same server with a certificate authority that cannot parse the request.\<close>

definition unparsableCSRServer :: Server where
  "unparsableCSRServer = stubServer\<lparr>GetCertificate := (\<lambda>csr. Inl ''unable to parse CSR'')\<rparr>"

text \<open>The same server with a key management system that fails.\<close>

definition kmsFailingServer :: Server where
  "kmsFailingServer = stubServer\<lparr>GetDataKey := (\<lambda>uuid n. Inl ''kms unavailable'')\<rparr>"

text \<open>The same server with a registry that refuses the node.\<close>

definition registryFailingServer :: Server where
  "registryFailingServer =
     stubServer\<lparr>AddNodeToJoiningNodes := (\<lambda>name ref cp. Some ''registry unavailable'')\<rparr>"

text \<open>The same server without the file of additional principals.\<close>

definition noPrincipalsServer :: Server where
  "noPrincipalsServer = stubServer\<lparr>Read := (\<lambda>path. Inl ''file does not exist'')\<rparr>"

text \<open>The same server with a join token that carries no CA certificate hash.\<close>

definition noHashServer :: Server where
  "noHashServer =
     stubServer\<lparr>GetJoinToken := (\<lambda>ttl. Inr \<lparr>JoinToken = ''token'',
                   APIServerEndpoint = ''192.0.2.1:6443'', CACertHashes = []\<rparr>)\<rparr>"

text \<open>A second request, of a worker node with another disk, and a rejoin request.\<close>

definition workerRequest :: IssueJoinTicketRequest where
  "workerRequest = \<lparr>
     DiskUuid = ''other uuid'',
     CertificateRequest = ''worker request'',
     IsControlPlane = False,
     HostPublicKey = ed25519Header @ ''fedcba9876543210fedcba9876543210'',
     HostCertificatePrincipals = []\<rparr>"

definition stubRejoinRequest :: IssueRejoinTicketRequest where
  "stubRejoinRequest = \<lparr>RejoinDiskUuid = ''uuid''\<rparr>"

text \<open>
  The same server with a key getter that derives every key from one master secret and
  one salt, under the prefix of data encryption keys.
\<close>

definition derivingServer :: Server where
  "derivingServer =
     stubServer\<lparr>GetDataKey := (\<lambda>uuid n.
       DeriveKey stubImports ''master secret'' ''salt'' (DEKPrefix stubImports @ uuid) n)\<rparr>"

subsection \<open>Single steps of the loop\<close>

lemma classify_nil: "classify p None = Success"
  by (simp add: classify_def)

lemma classify_someErr: "classify p (Some someErr) = Fatal"
  by (simp add: classify_def someErr_def)

lemma classify_unavailableErr:
  "\<not> p ''unavailable'' \<Longrightarrow> classify p (Some unavailableErr) = TransportUnavailable"
  by (simp add: classify_def unavailableErr_def)

lemma classify_lbErr:
  "p ''connection error: desc = \"transport: authentication handshake failed: read tcp''
   \<Longrightarrow> classify p (Some lbErr) = HandshakeFailure"
  by (simp add: classify_def lbErr_def)

lemma step_success:
  assumes "push d ep = Some (err, d')" and "classify p err = Success"
  shows "recoverLoop p push adv d ep n ctr tr =
         recoverLoop p push adv d' (adv ep) 0 (ctr + 1) (tr @ [ep])"
  using assms by (subst recoverLoop.simps) simp

lemma step_unavailable_first:
  assumes "push d ep = Some (err, d')" and "classify p err = TransportUnavailable"
  shows "recoverLoop p push adv d ep 0 ctr tr =
         recoverLoop p push adv d' ep 1 ctr (tr @ [ep])"
  using assms by (subst recoverLoop.simps) simp

lemma step_unavailable_again:
  assumes "push d ep = Some (err, d')" and "classify p err = TransportUnavailable"
    and "n \<noteq> 0"
  shows "recoverLoop p push adv d ep n ctr tr =
         Some (Finished \<lparr>successes = ctr, failure = None, attempted = tr @ [ep], doer = d'\<rparr>)"
  using assms by (subst recoverLoop.simps) simp

lemma step_handshake:
  assumes "push d ep = Some (err, d')" and "classify p err = HandshakeFailure"
  shows "recoverLoop p push adv d ep n ctr tr =
         recoverLoop p push adv d' ep n ctr (tr @ [ep])"
  using assms by (subst recoverLoop.simps) simp

lemma step_fatal:
  assumes "push d ep = Some (err, d')" and "classify p err = Fatal"
  shows "recoverLoop p push adv d ep n ctr tr =
         Some (Finished \<lparr>successes = ctr, failure = err, attempted = tr @ [ep], doer = d'\<rparr>)"
  using assms by (subst recoverLoop.simps) simp

text \<open>
  Once the stub has handed out its last error it answers "unavailable" for ever, so
  from there the loop ends after at most two more attempts, without error.
\<close>

lemma stub_exhausted:
  assumes "\<not> p ''unavailable''"
  shows "recoverLoop p stubDoer adv [Some unavailableErr] ep n ctr tr =
         Some (Finished \<lparr>successes = ctr, failure = None,
                 attempted = tr @ (if n = 0 then [ep, ep] else [ep]),
                 doer = [Some unavailableErr]\<rparr>)"
proof -
  have push: "stubDoer [Some unavailableErr] ep = Some (Some unavailableErr, [Some unavailableErr])"
    by (simp add: stubDoer_def unavailableErr_def)
  have cls: "classify p (Some unavailableErr) = TransportUnavailable"
    using assms by (rule classify_unavailableErr)
  show ?thesis
  proof (cases "n = 0")
    case True
    have "recoverLoop p stubDoer adv [Some unavailableErr] ep 0 ctr tr =
          recoverLoop p stubDoer adv [Some unavailableErr] ep 1 ctr (tr @ [ep])"
      using push cls by (rule step_unavailable_first)
    also have "\<dots> = Some (Finished \<lparr>successes = ctr, failure = None,
                 attempted = (tr @ [ep]) @ [ep], doer = [Some unavailableErr]\<rparr>)"
      using push cls by (rule step_unavailable_again) simp
    finally show ?thesis using True by simp
  next
    case False
    with push cls show ?thesis by (simp add: step_unavailable_again)
  qed
qed

lemma stub_cons:
  "rest \<noteq> [] \<Longrightarrow> stubDoer (err # rest) ep = Some (err, rest)"
  by (simp add: stubDoer_def)

lemma stub_last:
  "stubDoer [err] ep = Some (err, [Some unavailableErr])"
  by (simp add: stubDoer_def unavailableErr_def)

lemma lb_prefix:
  assumes "p ''connection error: desc = \"transport: authentication handshake failed: read tcp''"
    and "rest \<noteq> []"
  shows "recoverLoop p stubDoer adv (replicate k (Some lbErr) @ rest) ep n ctr tr =
         recoverLoop p stubDoer adv rest ep n ctr (tr @ replicate k ep)"
proof (induction k arbitrary: tr)
  case 0
  show ?case by simp
next
  case (Suc k)
  have "stubDoer (replicate (Suc k) (Some lbErr) @ rest) ep =
        Some (Some lbErr, replicate k (Some lbErr) @ rest)"
    using assms(2) by (simp add: stub_cons)
  then have "recoverLoop p stubDoer adv (replicate (Suc k) (Some lbErr) @ rest) ep n ctr tr =
        recoverLoop p stubDoer adv (replicate k (Some lbErr) @ rest) ep n ctr (tr @ [ep])"
    using classify_lbErr [of p, OF assms(1)] by (rule step_handshake)
  also have "\<dots> = recoverLoop p stubDoer adv rest ep n ctr ((tr @ [ep]) @ replicate k ep)"
    by (rule Suc.IH)
  finally show ?case by (simp add: replicate_app_Cons_same)
qed

lemma last_success:
  assumes "\<not> p ''unavailable''"
  shows "recoverLoop p stubDoer adv [None] ep n ctr tr =
         Some (Finished \<lparr>successes = ctr + 1, failure = None,
                 attempted = tr @ [ep, adv ep, adv ep], doer = [Some unavailableErr]\<rparr>)"
proof -
  have "recoverLoop p stubDoer adv [None] ep n ctr tr =
        recoverLoop p stubDoer adv [Some unavailableErr] (adv ep) 0 (ctr + 1) (tr @ [ep])"
    using stub_last classify_nil by (rule step_success)
  then show ?thesis using assms by (simp add: stub_exhausted)
qed

lemma handshakeFailed_unavailable: "\<not> handshakeFailed ''unavailable''"
  by (simp add: handshakeFailed_def)

lemma handshakeFailed_lb:
  "handshakeFailed ''connection error: desc = \"transport: authentication handshake failed: read tcp''"
  by (simp add: handshakeFailed_def)



subsection \<open>The unavailable retry\<close>

text \<open>
  C1: a transport-unavailable outcome is retried at most once per endpoint. Against the
  stub of the test, the errors [unavailable, nil] give one successful recovery and no
  error; the errors [unavailable, unavailable, nil] end the loop at the second
  unavailable answer with no recovery and no error, the later nil still unread in the
  stub. For any doer, two unavailable answers in a row at one endpoint end the loop
  without error after exactly those two attempts.
\<close>

theorem unavailable_retried_once:
  assumes "\<not> lbPattern ''unavailable''"
  shows "recover lbPattern stubDoer advance [Some unavailableErr, None] ep =
           Some (Finished \<lparr>successes = 1, failure = None,
                   attempted = [ep, ep, advance ep, advance ep],
                   doer = [Some unavailableErr]\<rparr>)
       \<and> recover lbPattern stubDoer advance [Some unavailableErr, Some unavailableErr, None] ep =
           Some (Finished \<lparr>successes = 0, failure = None, attempted = [ep, ep], doer = [None]\<rparr>)
       \<and> (\<forall>push d e1 d1 e2 d2 ctr tr.
             push d ep = Some (e1, d1) \<and> classify lbPattern e1 = TransportUnavailable \<and>
             push d1 ep = Some (e2, d2) \<and> classify lbPattern e2 = TransportUnavailable \<longrightarrow>
             recoverLoop lbPattern push advance d ep 0 ctr tr =
               Some (Finished \<lparr>successes = ctr, failure = None,
                       attempted = tr @ [ep, ep], doer = d2\<rparr>))"
proof (intro conjI allI impI)
  note cls = classify_unavailableErr [of lbPattern, OF assms]
  have "recover lbPattern stubDoer advance [Some unavailableErr, None] ep =
        recoverLoop lbPattern stubDoer advance [None] ep 1 0 [ep]"
    unfolding recover_def using cls
    by (subst step_unavailable_first [where err = "Some unavailableErr" and d' = "[None]"])
       (simp_all add: stub_cons)
  then show "recover lbPattern stubDoer advance [Some unavailableErr, None] ep =
           Some (Finished \<lparr>successes = 1, failure = None,
                   attempted = [ep, ep, advance ep, advance ep],
                   doer = [Some unavailableErr]\<rparr>)"
    using assms by (simp add: last_success)
next
  note cls = classify_unavailableErr [of lbPattern, OF assms]
  have "recover lbPattern stubDoer advance [Some unavailableErr, Some unavailableErr, None] ep =
        recoverLoop lbPattern stubDoer advance [Some unavailableErr, None] ep 1 0 [ep]"
    unfolding recover_def using cls
    by (subst step_unavailable_first
          [where err = "Some unavailableErr" and d' = "[Some unavailableErr, None]"])
       (simp_all add: stub_cons)
  also have "\<dots> = Some (Finished \<lparr>successes = 0, failure = None,
                        attempted = [ep] @ [ep], doer = [None]\<rparr>)"
    using cls
    by (subst step_unavailable_again [where err = "Some unavailableErr" and d' = "[None]"])
       (simp_all add: stub_cons)
  finally show "recover lbPattern stubDoer advance
                  [Some unavailableErr, Some unavailableErr, None] ep =
           Some (Finished \<lparr>successes = 0, failure = None, attempted = [ep, ep], doer = [None]\<rparr>)"
    by simp
next
  fix push :: "'c \<Rightarrow> 'a \<Rightarrow> (go_error option \<times> 'c) option" and d e1 d1 e2 d2 ctr tr
  assume h: "push d ep = Some (e1, d1) \<and> classify lbPattern e1 = TransportUnavailable \<and>
             push d1 ep = Some (e2, d2) \<and> classify lbPattern e2 = TransportUnavailable"
  then have "recoverLoop lbPattern push advance d ep 0 ctr tr =
             recoverLoop lbPattern push advance d1 ep 1 ctr (tr @ [ep])"
    by (simp add: step_unavailable_first)
  also have "\<dots> = Some (Finished \<lparr>successes = ctr, failure = None,
                        attempted = (tr @ [ep]) @ [ep], doer = d2\<rparr>)"
    using h by (subst step_unavailable_again [where err = e2 and d' = d2]) simp_all
  finally show "recoverLoop lbPattern push advance d ep 0 ctr tr =
               Some (Finished \<lparr>successes = ctr, failure = None,
                       attempted = tr @ [ep, ep], doer = d2\<rparr>)"
    by simp
qed

theorem unavailable_retried_once_witness:
  "\<not> handshakeFailed ''unavailable''
   \<and> recover handshakeFailed stubDoer (\<lambda>e. e) [Some unavailableErr, None] ''192.0.2.90'' =
       Some (Finished \<lparr>successes = 1, failure = None,
               attempted = [''192.0.2.90'', ''192.0.2.90'', ''192.0.2.90'', ''192.0.2.90''],
               doer = [Some unavailableErr]\<rparr>)
   \<and> recover handshakeFailed stubDoer (\<lambda>e. e)
         [Some unavailableErr, Some unavailableErr, None] ''192.0.2.90'' =
       Some (Finished \<lparr>successes = 0, failure = None,
               attempted = [''192.0.2.90'', ''192.0.2.90''], doer = [None]\<rparr>)
   \<and> stubDoer [Some unavailableErr, Some unavailableErr, None] ''192.0.2.90'' =
         Some (Some unavailableErr, [Some unavailableErr, None])
   \<and> classify handshakeFailed (Some unavailableErr) = TransportUnavailable
   \<and> stubDoer [Some unavailableErr, None] ''192.0.2.90'' = Some (Some unavailableErr, [None])
   \<and> recoverLoop handshakeFailed stubDoer (\<lambda>e. e)
         [Some unavailableErr, Some unavailableErr, None] ''192.0.2.90'' 0 0 [] =
       Some (Finished \<lparr>successes = 0, failure = None,
               attempted = [''192.0.2.90'', ''192.0.2.90''], doer = [None]\<rparr>)"
proof -
  note inst = unavailable_retried_once
    [of handshakeFailed "\<lambda>e. e" "''192.0.2.90''", OF handshakeFailed_unavailable]
  have push1: "stubDoer [Some unavailableErr, Some unavailableErr, None] ''192.0.2.90'' =
         Some (Some unavailableErr, [Some unavailableErr, None])"
    by (simp add: stubDoer_def)
  have push2: "stubDoer [Some unavailableErr, None] ''192.0.2.90'' =
         Some (Some unavailableErr, [None])"
    by (simp add: stubDoer_def)
  have cls: "classify handshakeFailed (Some unavailableErr) = TransportUnavailable"
    by (simp add: classify_def unavailableErr_def handshakeFailed_def)
  from inst have seq1: "recover handshakeFailed stubDoer (\<lambda>e. e) [Some unavailableErr, None] ''192.0.2.90'' =
       Some (Finished \<lparr>successes = 1, failure = None,
               attempted = [''192.0.2.90'', ''192.0.2.90'', ''192.0.2.90'', ''192.0.2.90''],
               doer = [Some unavailableErr]\<rparr>)"
    by (rule conjunct1)
  from inst have seq2: "recover handshakeFailed stubDoer (\<lambda>e. e)
         [Some unavailableErr, Some unavailableErr, None] ''192.0.2.90'' =
       Some (Finished \<lparr>successes = 0, failure = None,
               attempted = [''192.0.2.90'', ''192.0.2.90''], doer = [None]\<rparr>)"
    by (rule conjunct2 [THEN conjunct1])
  note general = inst [THEN conjunct2, THEN conjunct2, rule_format,
      of stubDoer "[Some unavailableErr, Some unavailableErr, None]"
         "Some unavailableErr" "[Some unavailableErr, None]" "Some unavailableErr" "[None]" 0 "[]"]
  have seq3: "recoverLoop handshakeFailed stubDoer (\<lambda>e. e)
         [Some unavailableErr, Some unavailableErr, None] ''192.0.2.90'' 0 0 [] =
       Some (Finished \<lparr>successes = 0, failure = None,
               attempted = [''192.0.2.90'', ''192.0.2.90''], doer = [None]\<rparr>)"
    using general push1 push2 cls by simp
  show ?thesis
    using handshakeFailed_unavailable seq1 seq2 push1 cls push2 seq3 by (intro conjI)
qed


subsection \<open>The report of a completed recovery\<close>

text \<open>
  C4: a loop that ends through the unavailable path without any successful recovery
  ends without error and is reported as "No control-plane nodes in need of recovery
  found"; with at least one recovered node the report is "Pushed recovery key." with
  the count of recovered nodes. Against the stub: the errors [unavailable] give no
  success, no error and the first report; [nil] and [nil, nil] give the second report
  with the counts 1 and 2. For any doer, an unavailable answer with the retry used up
  ends the loop without error, with the count so far and the report that fits it.
\<close>

theorem report_of_completed_recovery:
  assumes "\<not> lbPattern ''unavailable''"
  shows "(\<exists>r. recover lbPattern stubDoer advance [Some unavailableErr] ep = Some (Finished r) \<and>
            successes r = 0 \<and> failure r = None \<and>
            report r = Message ''No control-plane nodes in need of recovery found'')
       \<and> (\<exists>r. recover lbPattern stubDoer advance [None] ep = Some (Finished r) \<and>
            successes r = 1 \<and> failure r = None \<and>
            report r = MessageWithCount ''Pushed recovery key.'' 1)
       \<and> (\<exists>r. recover lbPattern stubDoer advance [None, None] ep = Some (Finished r) \<and>
            successes r = 2 \<and> failure r = None \<and>
            report r = MessageWithCount ''Pushed recovery key.'' 2)
       \<and> (\<forall>push d err d' n ctr tr.
             push d ep = Some (err, d') \<and> classify lbPattern err = TransportUnavailable \<and> n \<noteq> 0 \<longrightarrow>
             (\<exists>r. recoverLoop lbPattern push advance d ep n ctr tr = Some (Finished r) \<and>
                  successes r = ctr \<and> failure r = None \<and>
                  report r = (if ctr = 0
                              then Message ''No control-plane nodes in need of recovery found''
                              else MessageWithCount ''Pushed recovery key.'' ctr)))"
proof (intro conjI allI impI)
  show "\<exists>r. recover lbPattern stubDoer advance [Some unavailableErr] ep = Some (Finished r) \<and>
            successes r = 0 \<and> failure r = None \<and>
            report r = Message ''No control-plane nodes in need of recovery found''"
    using assms by (simp add: recover_def stub_exhausted report_def)
next
  show "\<exists>r. recover lbPattern stubDoer advance [None] ep = Some (Finished r) \<and>
            successes r = 1 \<and> failure r = None \<and>
            report r = MessageWithCount ''Pushed recovery key.'' 1"
    using assms by (simp add: recover_def last_success report_def)
next
  have "recover lbPattern stubDoer advance [None, None] ep =
        recoverLoop lbPattern stubDoer advance [None] (advance ep) 0 1 [ep]"
    unfolding recover_def
    by (subst step_success [where err = None and d' = "[None]"])
       (simp_all add: stub_cons classify_nil)
  then show "\<exists>r. recover lbPattern stubDoer advance [None, None] ep = Some (Finished r) \<and>
            successes r = 2 \<and> failure r = None \<and>
            report r = MessageWithCount ''Pushed recovery key.'' 2"
    using assms by (simp add: last_success report_def)
next
  fix push :: "'c \<Rightarrow> 'a \<Rightarrow> (go_error option \<times> 'c) option" and d err d' n ctr tr
  assume h: "push d ep = Some (err, d') \<and> classify lbPattern err = TransportUnavailable \<and> n \<noteq> (0::nat)"
  then have "recoverLoop lbPattern push advance d ep n ctr tr =
        Some (Finished \<lparr>successes = ctr, failure = None, attempted = tr @ [ep], doer = d'\<rparr>)"
    by (subst step_unavailable_again [where err = err and d' = d']) simp_all
  then show "\<exists>r. recoverLoop lbPattern push advance d ep n ctr tr = Some (Finished r) \<and>
                  successes r = ctr \<and> failure r = None \<and>
                  report r = (if ctr = 0
                              then Message ''No control-plane nodes in need of recovery found''
                              else MessageWithCount ''Pushed recovery key.'' ctr)"
    by (simp add: report_def)
qed

theorem report_of_completed_recovery_witness:
  "\<not> handshakeFailed ''unavailable''
   \<and> recover handshakeFailed stubDoer (\<lambda>e. e) [Some unavailableErr] ''192.0.2.90'' =
       Some (Finished \<lparr>successes = 0, failure = None,
               attempted = [''192.0.2.90'', ''192.0.2.90''], doer = [Some unavailableErr]\<rparr>)
   \<and> (\<exists>r. recover handshakeFailed stubDoer (\<lambda>e. e) [Some unavailableErr] ''192.0.2.90'' =
            Some (Finished r) \<and>
          successes r = 0 \<and> failure r = None \<and>
          report r = Message ''No control-plane nodes in need of recovery found'')
   \<and> stubDoer [Some unavailableErr] ''192.0.2.90'' = Some (Some unavailableErr, [Some unavailableErr])
   \<and> classify handshakeFailed (Some unavailableErr) = TransportUnavailable
   \<and> (\<exists>r. recoverLoop handshakeFailed stubDoer (\<lambda>e. e) [Some unavailableErr] ''192.0.2.90''
              1 3 [] = Some (Finished r) \<and>
          successes r = 3 \<and> failure r = None \<and>
          report r = (if (3::nat) = 0
                      then Message ''No control-plane nodes in need of recovery found''
                      else MessageWithCount ''Pushed recovery key.'' 3))"
proof -
  note inst = report_of_completed_recovery
    [of handshakeFailed "\<lambda>e. e" "''192.0.2.90''", OF handshakeFailed_unavailable]
  have push: "stubDoer [Some unavailableErr] ''192.0.2.90'' =
              Some (Some unavailableErr, [Some unavailableErr])"
    by (rule stub_last)
  have cls: "classify handshakeFailed (Some unavailableErr) = TransportUnavailable"
    using handshakeFailed_unavailable by (rule classify_unavailableErr)
  have run: "recover handshakeFailed stubDoer (\<lambda>e. e) [Some unavailableErr] ''192.0.2.90'' =
       Some (Finished \<lparr>successes = 0, failure = None,
               attempted = [''192.0.2.90'', ''192.0.2.90''], doer = [Some unavailableErr]\<rparr>)"
    using handshakeFailed_unavailable by (simp add: recover_def stub_exhausted)
  note seq1 = inst [THEN conjunct1]
  have hyp: "stubDoer [Some unavailableErr] ''192.0.2.90'' =
               Some (Some unavailableErr, [Some unavailableErr]) \<and>
             classify handshakeFailed (Some unavailableErr) = TransportUnavailable \<and> (1::nat) \<noteq> 0"
    using push cls by simp
  note gen = inst [THEN conjunct2, THEN conjunct2, THEN conjunct2, rule_format,
      of stubDoer "[Some unavailableErr]" "Some unavailableErr" "[Some unavailableErr]" 1 3 "[]",
      OF hyp]
  show ?thesis
    using handshakeFailed_unavailable run seq1 push cls gen by (intro conjI)
qed


subsection \<open>Fatal errors\<close>

text \<open>
  C5: an outcome that is neither transport-unavailable nor the handshake failure is
  fatal. Every error that is not a status of code Unavailable is classified fatal; a
  fatal outcome ends the loop at once, with that error, the success count so far and no
  further attempt. Against the stub: the errors [error] give no success and the error;
  the errors [error, nil] give the same after one attempt, the nil still unread in the
  stub; the report carries the error and the count.
\<close>

theorem fatal_aborts_loop:
  "recover lbPattern stubDoer advance [Some someErr] ep =
     Some (Finished \<lparr>successes = 0, failure = Some someErr, attempted = [ep],
             doer = [Some unavailableErr]\<rparr>)
   \<and> recover lbPattern stubDoer advance [Some someErr, None] ep =
     Some (Finished \<lparr>successes = 0, failure = Some someErr, attempted = [ep], doer = [None]\<rparr>)
   \<and> report \<lparr>successes = 0, failure = Some someErr, attempted = [ep], doer = [None :: go_error option]\<rparr> =
       ErrorWithCount someErr 0
   \<and> (\<forall>e. (\<forall>msg. e \<noteq> GrpcStatus Unavailable msg) \<longrightarrow> classify lbPattern (Some e) = Fatal)
   \<and> (\<forall>push d err d' n ctr tr.
         push d ep = Some (err, d') \<and> classify lbPattern err = Fatal \<longrightarrow>
         recoverLoop lbPattern push advance d ep n ctr tr =
           Some (Finished \<lparr>successes = ctr, failure = err, attempted = tr @ [ep], doer = d'\<rparr>))"
proof (intro conjI allI impI)
  show "recover lbPattern stubDoer advance [Some someErr] ep =
     Some (Finished \<lparr>successes = 0, failure = Some someErr, attempted = [ep],
             doer = [Some unavailableErr]\<rparr>)"
    unfolding recover_def
    by (subst step_fatal [where err = "Some someErr" and d' = "[Some unavailableErr]"])
       (simp_all add: stub_last classify_someErr)
next
  show "recover lbPattern stubDoer advance [Some someErr, None] ep =
     Some (Finished \<lparr>successes = 0, failure = Some someErr, attempted = [ep], doer = [None]\<rparr>)"
    unfolding recover_def
    by (subst step_fatal [where err = "Some someErr" and d' = "[None]"])
       (simp_all add: stub_cons classify_someErr)
next
  show "report \<lparr>successes = 0, failure = Some someErr, attempted = [ep], doer = [None :: go_error option]\<rparr> =
       ErrorWithCount someErr 0"
    by (simp add: report_def)
next
  fix e assume "\<forall>msg. e \<noteq> GrpcStatus Unavailable msg"
  then show "classify lbPattern (Some e) = Fatal"
    by (cases e) (auto simp: classify_def)
next
  fix push :: "'c \<Rightarrow> 'a \<Rightarrow> (go_error option \<times> 'c) option" and d err d' n ctr tr
  assume "push d ep = Some (err, d') \<and> classify lbPattern err = Fatal"
  then show "recoverLoop lbPattern push advance d ep n ctr tr =
           Some (Finished \<lparr>successes = ctr, failure = err, attempted = tr @ [ep], doer = d'\<rparr>)"
    by (subst step_fatal [where err = err and d' = d']) simp_all
qed

theorem fatal_aborts_loop_witness:
  "recover handshakeFailed stubDoer (\<lambda>e. e) [Some someErr, None] ''192.0.2.90'' =
     Some (Finished \<lparr>successes = 0, failure = Some someErr, attempted = [''192.0.2.90''],
             doer = [None]\<rparr>)
   \<and> (\<forall>msg. someErr \<noteq> GrpcStatus Unavailable msg)
   \<and> classify handshakeFailed (Some someErr) = Fatal
   \<and> stubDoer [Some someErr, None] ''192.0.2.90'' = Some (Some someErr, [None])
   \<and> recoverLoop handshakeFailed stubDoer (\<lambda>e. e) [Some someErr, None] ''192.0.2.90'' 0 2
         [''192.0.2.89''] =
       Some (Finished \<lparr>successes = 2, failure = Some someErr,
               attempted = [''192.0.2.89''] @ [''192.0.2.90''], doer = [None]\<rparr>)"
proof -
  note inst = fatal_aborts_loop [of handshakeFailed "\<lambda>e. e" "''192.0.2.90''"]
  note seq = inst [THEN conjunct2, THEN conjunct1]
  have plain: "\<forall>msg. someErr \<noteq> GrpcStatus Unavailable msg"
    by (simp add: someErr_def)
  note cls = inst [THEN conjunct2, THEN conjunct2, THEN conjunct2, THEN conjunct1,
      rule_format, of someErr, OF plain [rule_format]]
  have push: "stubDoer [Some someErr, None] ''192.0.2.90'' = Some (Some someErr, [None])"
    by (simp add: stubDoer_def)
  have hyp: "stubDoer [Some someErr, None] ''192.0.2.90'' = Some (Some someErr, [None]) \<and>
             classify handshakeFailed (Some someErr) = Fatal"
    using push cls by simp
  note gen = inst [THEN conjunct2, THEN conjunct2, THEN conjunct2, THEN conjunct2,
      rule_format, of stubDoer "[Some someErr, None]" "Some someErr" "[None]" 0 2
        "[''192.0.2.89'']", OF hyp]
  show ?thesis
    using seq plain cls push gen by (intro conjI)
qed


subsection \<open>Load-balancer churn\<close>

text \<open>
  C6: the handshake failure of a load balancer is retried on the same endpoint without
  bound and without using up the unavailable retry. Against the stub, three such
  failures followed by nil give one successful recovery and no error, and so does any
  number of them; after such a failure one unavailable answer is still retried, so
  [handshake failure, unavailable, nil] gives one success too. For any doer, the
  failure leaves endpoint, unavailable counter and success count as they were.
\<close>

theorem handshake_failure_retried_without_budget:
  assumes lb: "lbPattern
      ''connection error: desc = \"transport: authentication handshake failed: read tcp''"
    and un: "\<not> lbPattern ''unavailable''"
  shows "recover lbPattern stubDoer advance [Some lbErr, Some lbErr, Some lbErr, None] ep =
           Some (Finished \<lparr>successes = 1, failure = None,
                   attempted = [ep, ep, ep, ep, advance ep, advance ep],
                   doer = [Some unavailableErr]\<rparr>)
       \<and> (\<forall>k. recover lbPattern stubDoer advance (replicate k (Some lbErr) @ [None]) ep =
             Some (Finished \<lparr>successes = 1, failure = None,
                     attempted = replicate (k + 1) ep @ [advance ep, advance ep],
                     doer = [Some unavailableErr]\<rparr>))
       \<and> recover lbPattern stubDoer advance [Some lbErr, Some unavailableErr, None] ep =
           Some (Finished \<lparr>successes = 1, failure = None,
                   attempted = [ep, ep, ep, advance ep, advance ep],
                   doer = [Some unavailableErr]\<rparr>)
       \<and> (\<forall>push d err d' n ctr tr.
             push d ep = Some (err, d') \<and> classify lbPattern err = HandshakeFailure \<longrightarrow>
             recoverLoop lbPattern push advance d ep n ctr tr =
               recoverLoop lbPattern push advance d' ep n ctr (tr @ [ep]))"
proof -
  have many: "recover lbPattern stubDoer advance (replicate k (Some lbErr) @ [None]) ep =
             Some (Finished \<lparr>successes = 1, failure = None,
                     attempted = replicate (k + 1) ep @ [advance ep, advance ep],
                     doer = [Some unavailableErr]\<rparr>)" for k
  proof -
    have "recover lbPattern stubDoer advance (replicate k (Some lbErr) @ [None]) ep =
          recoverLoop lbPattern stubDoer advance [None] ep 0 0 ([] @ replicate k ep)"
      unfolding recover_def using lb by (intro lb_prefix) simp_all
    also have "\<dots> = Some (Finished \<lparr>successes = 0 + 1, failure = None,
                     attempted = ([] @ replicate k ep) @ [ep, advance ep, advance ep],
                     doer = [Some unavailableErr]\<rparr>)"
      using un by (rule last_success)
    finally show ?thesis by (simp add: replicate_append_same)
  qed
  have three: "recover lbPattern stubDoer advance [Some lbErr, Some lbErr, Some lbErr, None] ep =
           Some (Finished \<lparr>successes = 1, failure = None,
                   attempted = [ep, ep, ep, ep, advance ep, advance ep],
                   doer = [Some unavailableErr]\<rparr>)"
    using many [of "Suc (Suc (Suc 0))"] by simp
  have "recover lbPattern stubDoer advance [Some lbErr, Some unavailableErr, None] ep =
        recoverLoop lbPattern stubDoer advance [Some unavailableErr, None] ep 0 0 [ep]"
    unfolding recover_def
    by (subst step_handshake [where err = "Some lbErr" and d' = "[Some unavailableErr, None]"])
       (simp_all add: stub_cons classify_lbErr [of lbPattern, OF lb])
  also have "\<dots> = recoverLoop lbPattern stubDoer advance [None] ep 1 0 ([ep] @ [ep])"
    by (subst step_unavailable_first [where err = "Some unavailableErr" and d' = "[None]"])
       (simp_all add: stub_cons classify_unavailableErr [of lbPattern, OF un])
  also have "\<dots> = Some (Finished \<lparr>successes = 0 + 1, failure = None,
                     attempted = ([ep] @ [ep]) @ [ep, advance ep, advance ep],
                     doer = [Some unavailableErr]\<rparr>)"
    using un by (rule last_success)
  finally have budget: "recover lbPattern stubDoer advance [Some lbErr, Some unavailableErr, None] ep =
           Some (Finished \<lparr>successes = 1, failure = None,
                   attempted = [ep, ep, ep, advance ep, advance ep],
                   doer = [Some unavailableErr]\<rparr>)"
    by simp
  have step: "\<forall>push d err d' n ctr tr.
             push d ep = Some (err, d') \<and> classify lbPattern err = HandshakeFailure \<longrightarrow>
             recoverLoop lbPattern push advance d ep n ctr tr =
               recoverLoop lbPattern push advance d' ep n ctr (tr @ [ep])"
    by (intro allI impI, elim conjE) (rule step_handshake)
  from many have many_all:
    "\<forall>k. recover lbPattern stubDoer advance (replicate k (Some lbErr) @ [None]) ep =
             Some (Finished \<lparr>successes = 1, failure = None,
                     attempted = replicate (k + 1) ep @ [advance ep, advance ep],
                     doer = [Some unavailableErr]\<rparr>)"
    by (intro allI)
  from three many_all budget step show ?thesis by (intro conjI)
qed

theorem handshake_failure_retried_without_budget_witness:
  "handshakeFailed ''connection error: desc = \"transport: authentication handshake failed: read tcp''
   \<and> \<not> handshakeFailed ''unavailable''
   \<and> recover handshakeFailed stubDoer (\<lambda>e. e) [Some lbErr, Some lbErr, Some lbErr, None]
        ''192.0.2.90'' =
       Some (Finished \<lparr>successes = 1, failure = None,
               attempted = [''192.0.2.90'', ''192.0.2.90'', ''192.0.2.90'', ''192.0.2.90'',
                            ''192.0.2.90'', ''192.0.2.90''],
               doer = [Some unavailableErr]\<rparr>)
   \<and> stubDoer [Some lbErr, None] ''192.0.2.90'' = Some (Some lbErr, [None])
   \<and> classify handshakeFailed (Some lbErr) = HandshakeFailure
   \<and> recoverLoop handshakeFailed stubDoer (\<lambda>e. e) [Some lbErr, None] ''192.0.2.90'' 1 0 [] =
       recoverLoop handshakeFailed stubDoer (\<lambda>e. e) [None] ''192.0.2.90'' 1 0 ([] @ [''192.0.2.90''])"
proof -
  note inst = handshake_failure_retried_without_budget
    [of handshakeFailed "\<lambda>e. e" "''192.0.2.90''", OF handshakeFailed_lb handshakeFailed_unavailable]
  note seq = inst [THEN conjunct1]
  have push: "stubDoer [Some lbErr, None] ''192.0.2.90'' = Some (Some lbErr, [None])"
    by (simp add: stubDoer_def)
  have cls: "classify handshakeFailed (Some lbErr) = HandshakeFailure"
    using handshakeFailed_lb by (rule classify_lbErr)
  have hyp: "stubDoer [Some lbErr, None] ''192.0.2.90'' = Some (Some lbErr, [None]) \<and>
             classify handshakeFailed (Some lbErr) = HandshakeFailure"
    using push cls by simp
  note gen = inst [THEN conjunct2, THEN conjunct2, THEN conjunct2, rule_format,
      of stubDoer "[Some lbErr, None]" "Some lbErr" "[None]" 1 0 "[]", OF hyp]
  show ?thesis
    using handshakeFailed_lb handshakeFailed_unavailable seq push cls gen by (intro conjI)
qed

section \<open>Properties of the join service\<close>

subsection \<open>Runs, part by part\<close>

lemma snd_after [simp]: "snd (after evs run) = snd run"
  by (simp add: after_def)

lemma calls_after [simp]:
  "calls (after evs run) = calls (evs, snd run) @ calls run"
  by (simp add: after_def calls_def)

lemma calls_failed [simp]: "calls (failed l e) = []"
  by (simp add: failed_def calls_def)

lemma snd_failed [simp]: "snd (failed l e) = Return None (Some e)"
  by (simp add: failed_def)

lemma calls_Cons_Call [simp]: "calls (Call c # evs, r) = c # calls (evs, r)"
  by (simp add: calls_def)

lemma calls_Cons_LogInfo [simp]: "calls (LogInfo m # evs, r) = calls (evs, r)"
  by (simp add: calls_def)

lemma calls_Nil [simp]: "calls ([], r) = []"
  by (simp add: calls_def)

lemma isError_Errorf [simp]: "isError (Return None (Some (Errorf Internal format err)))"
  by (simp add: Errorf_def)

lemma isError_Return_Some [simp]: "\<not> isError (Return (Some resp) e)"
  by simp

lemma isError_Panic [simp]: "\<not> isError (Panic msg)"
  by simp

lemma isError_joinResponse [simp]: "\<not> isError (joinResponse im s sdk ms ka kc cpf comps ca hc)"
  by (simp add: joinResponse_def split: list.splits)

lemma register_failure:
  "(\<exists>c \<in> set (calls (registerAndRespond im s req sdk ms ka kc cpf comps cm ca hc)). callFails im s c)
   = isError (snd (registerAndRespond im s req sdk ms ka kc cpf comps cm ca hc))"
  by (simp add: registerAndRespond_def split: sum.splits option.splits)

lemma middle_failure:
  "(\<exists>c \<in> set (calls (tokenComponentsAndKubelet im s req sdk ms ca hc)). callFails im s c)
   = isError (snd (tokenComponentsAndKubelet im s req sdk ms ca hc))"
  by (simp add: tokenComponentsAndKubelet_def register_failure getK8sComponentsConfigMapName_def
           split: sum.splits)

lemma join_failure:
  "(\<exists>c \<in> set (calls (IssueJoinTicket im s req)). callFails im s c)
   = isError (snd (IssueJoinTicket im s req))"
  by (simp add: IssueJoinTicket_def middle_failure Let_def split: sum.splits)


lemma fst_after [simp]: "fst (after evs run) = evs @ fst run"
  by (simp add: after_def)

lemma fst_failed [simp]: "fst (failed l e) = [LogError l]"
  by (simp add: failed_def)

lemma wellFormed_simps [simp]:
  "wellFormed (Return None (Some (Errorf Internal format err)))"
  "wellFormed (joinResponse im s sdk ms ka kc cpf comps ca hc)"
  by (simp_all add: Errorf_def joinResponse_def split: list.splits)

lemma register_wellFormed:
  "wellFormed (snd (registerAndRespond im s req sdk ms ka kc cpf comps cm ca hc))"
  by (simp add: registerAndRespond_def split: sum.splits option.splits)

lemma middle_wellFormed:
  "wellFormed (snd (tokenComponentsAndKubelet im s req sdk ms ca hc))"
  by (simp add: tokenComponentsAndKubelet_def register_wellFormed split: sum.splits)

lemma join_wellFormed: "wellFormed (snd (IssueJoinTicket im s req))"
  by (simp add: IssueJoinTicket_def middle_wellFormed Let_def split: sum.splits)

lemma register_calls_nonempty [simp]:
  "calls (registerAndRespond im s req sdk ms ka kc cpf comps cm ca hc) \<noteq> []"
  by (simp add: registerAndRespond_def)

lemma middle_calls_nonempty [simp]:
  "calls (tokenComponentsAndKubelet im s req sdk ms ca hc) \<noteq> []"
  by (simp add: tokenComponentsAndKubelet_def)

lemma register_stops:
  "\<forall>c \<in> set (butlast (calls (registerAndRespond im s req sdk ms ka kc cpf comps cm ca hc))).
      \<not> callFails im s c \<and> \<not> isRegistration c"
  by (simp add: registerAndRespond_def split: sum.splits option.splits)

lemma middle_stops:
  "\<forall>c \<in> set (butlast (calls (tokenComponentsAndKubelet im s req sdk ms ca hc))).
      \<not> callFails im s c \<and> \<not> isRegistration c"
  using register_stops
  by (simp add: tokenComponentsAndKubelet_def getK8sComponentsConfigMapName_def
           split: sum.splits)

lemma join_stops:
  "\<forall>c \<in> set (butlast (calls (IssueJoinTicket im s req))).
      \<not> callFails im s c \<and> \<not> isRegistration c"
  using middle_stops
  by (simp add: IssueJoinTicket_def Let_def split: sum.splits)

lemma register_success:
  assumes "snd (registerAndRespond im s req sdk ms ka kc cpf comps cm ca hc) = Return (Some r) e"
  shows "StateDiskKey r = sdk \<and> MeasurementSecret r = ms \<and> e = None"
  using assms
  by (auto simp: registerAndRespond_def joinResponse_def split: sum.splits option.splits list.splits)

lemma middle_success:
  assumes "snd (tokenComponentsAndKubelet im s req sdk ms ca hc) = Return (Some r) e"
  shows "StateDiskKey r = sdk \<and> MeasurementSecret r = ms \<and> e = None"
  using assms
  by (auto simp: tokenComponentsAndKubelet_def split: sum.splits if_splits dest: register_success)

lemma join_success:
  assumes "snd (IssueJoinTicket im s req) = Return (Some r) e"
  shows "GetDataKey s (MeasurementSecretContext im) (DerivedKeyLengthDefault im) = Inr (MeasurementSecret r)
       \<and> GetDataKey s (DiskUuid req) (StateDiskKeyLength im) = Inr (StateDiskKey r) \<and> e = None"
  using assms
  by (auto simp: IssueJoinTicket_def Let_def split: sum.splits dest: middle_success)

lemma rejoin_success:
  assumes "snd (IssueRejoinTicket im s req) = Return (Some r) e"
  shows "GetDataKey s (MeasurementSecretContext im) (DerivedKeyLengthDefault im) = Inr (RejoinMeasurementSecret r)
       \<and> GetDataKey s (RejoinDiskUuid req) (StateDiskKeyLength im) = Inr (RejoinStateDiskKey r) \<and> e = None"
  using assms
  by (auto simp: IssueRejoinTicket_def split: sum.splits)

lemma register_order:
  "prefix (map stepOf (calls (registerAndRespond im s req sdk ms ka kc cpf comps cm ca hc)))
     [StepGetNodeNameFromCSR, StepAddNodeToJoiningNodes]
   \<and> (\<not> isError (snd (registerAndRespond im s req sdk ms ka kc cpf comps cm ca hc)) \<longrightarrow>
      map stepOf (calls (registerAndRespond im s req sdk ms ka kc cpf comps cm ca hc)) =
        [StepGetNodeNameFromCSR, StepAddNodeToJoiningNodes])"
  by (simp add: registerAndRespond_def split: sum.splits option.splits)

lemma middle_order_controlPlane:
  assumes "IsControlPlane req"
  shows "prefix (map stepOf (calls (tokenComponentsAndKubelet im s req sdk ms ca hc)))
     [StepGetJoinToken, StepGetK8sComponentsRefFromNodeVersionCRD, StepGetComponents,
      StepGetCertificate, StepGetControlPlaneCertificatesAndKeys,
      StepGetNodeNameFromCSR, StepAddNodeToJoiningNodes]"
    and "\<not> isError (snd (tokenComponentsAndKubelet im s req sdk ms ca hc)) \<Longrightarrow>
      map stepOf (calls (tokenComponentsAndKubelet im s req sdk ms ca hc)) =
     [StepGetJoinToken, StepGetK8sComponentsRefFromNodeVersionCRD, StepGetComponents,
      StepGetCertificate, StepGetControlPlaneCertificatesAndKeys,
      StepGetNodeNameFromCSR, StepAddNodeToJoiningNodes]"
  using assms
  by (simp_all add: tokenComponentsAndKubelet_def getK8sComponentsConfigMapName_def
        register_order split: sum.splits)

lemma middle_order_worker:
  assumes "\<not> IsControlPlane req"
  shows "prefix (map stepOf (calls (tokenComponentsAndKubelet im s req sdk ms ca hc)))
     [StepGetJoinToken, StepGetK8sComponentsRefFromNodeVersionCRD, StepGetComponents,
      StepGetCertificate, StepGetNodeNameFromCSR, StepAddNodeToJoiningNodes]"
    and "\<not> isError (snd (tokenComponentsAndKubelet im s req sdk ms ca hc)) \<Longrightarrow>
      map stepOf (calls (tokenComponentsAndKubelet im s req sdk ms ca hc)) =
     [StepGetJoinToken, StepGetK8sComponentsRefFromNodeVersionCRD, StepGetComponents,
      StepGetCertificate, StepGetNodeNameFromCSR, StepAddNodeToJoiningNodes]"
  using assms
  by (simp_all add: tokenComponentsAndKubelet_def getK8sComponentsConfigMapName_def
        register_order split: sum.splits)

lemma join_order:
  "prefix (map stepOf (calls (IssueJoinTicket im s req))) (stepOrder (IsControlPlane req))
   \<and> (\<not> isError (snd (IssueJoinTicket im s req)) \<longrightarrow>
      map stepOf (calls (IssueJoinTicket im s req)) = stepOrder (IsControlPlane req))"
  by (cases "IsControlPlane req")
     (simp_all add: IssueJoinTicket_def stepOrder_def Let_def
        middle_order_controlPlane middle_order_worker split: sum.splits)

lemma prefix_inOrder:
  assumes "prefix xs ys" and "sorted (List.map_filter rank ys)"
  shows "sorted (List.map_filter rank xs)"
proof -
  from assms(1) obtain zs where "ys = xs @ zs" by (auto simp: prefix_def)
  with assms(2) show ?thesis by (simp add: List.map_filter_def sorted_append)
qed

lemma stepOrder_codeRank: "sorted (List.map_filter codeRank (stepOrder b))"
  by (simp add: stepOrder_def List.map_filter_def)

subsection \<open>Runs against the stand-ins\<close>

lemmas run_defs = IssueJoinTicket_def tokenComponentsAndKubelet_def registerAndRespond_def
  joinResponse_def getK8sComponentsConfigMapName_def after_def failed_def Errorf_def
  stubImports_def stubServer_def stubRequest_def SeedSize_def
  ed25519Header_def parseEd25519_def padding_def

lemma stub_run:
  "IssueJoinTicket stubImports stubServer stubRequest =
    ([LogInfo ''IssueJoinTicket called'',
      LogInfo ''Requesting measurement secret'',
      Call (CallGetDataKey ''measurementSecret'' 32),
      LogInfo ''Requesting disk encryption key'',
      Call (CallGetDataKey ''uuid'' 32),
      LogInfo ''Requesting emergency SSH CA derivation key'',
      Call (CallGetDataKey ''ca_emergency_ssh'' 32),
      Call (CallGenerateEmergencySSHCAKey ''key of ca_emergency_ssh.........''),
      Call (CallRead ''/var/run/state/ssh/principals''),
      Call (CallParsePublicKey (ed25519Header @ ''0123456789abcdef0123456789abcdef'')),
      Call (CallGenerateSSHHostCertificate [''node'', ''admin'', ''root'']
              (PublicKey ''0123456789abcdef0123456789abcdef'') (Signer ''key of ca_emergency_ssh.........'')),
      LogInfo ''Creating Kubernetes join token'',
      Call (CallGetJoinToken 900),
      LogInfo ''Querying NodeVersion custom resource for components ConfigMap name'',
      Call (CallGetK8sComponentsRefFromNodeVersionCRD ''constellation-version''),
      LogInfo ''Querying k8s-components ConfigMap for components'',
      Call (CallGetComponents ''k8s-components''),
      LogInfo ''Creating signed kubelet certificate'',
      Call (CallGetCertificate ''request''),
      LogInfo ''Loading control plane certificates and keys'',
      Call CallGetControlPlaneCertificatesAndKeys,
      Call (CallGetNodeNameFromCSR ''request''),
      Call (CallAddNodeToJoiningNodes ''node'' ''k8s-components'' True),
      LogInfo ''IssueJoinTicket successful''],
     Return (Some \<lparr>
       StateDiskKey = ''key of uuid.....................'',
       MeasurementSalt = ''salt'',
       MeasurementSecret = ''key of measurementSecret........'',
       KubeletCert = ''kubelet certificate'',
       ApiServerEndpoint = ''192.0.2.1:6443'',
       Token = ''token'',
       DiscoveryTokenCaCertHash = ''sha256:hash'',
       ControlPlaneFiles = [\<lparr>Name = ''ca.key'', Data = ''key''\<rparr>],
       KubernetesVersion = [],
       KubernetesComponents = Components [''kubelet''],
       AuthorizedCaPublicKey = ''key of ca_emergency_ssh.........'',
       HostCertificate = ''0123456789abcdef0123456789abcdef''\<rparr>) None)"
  by (simp add: run_defs)

lemma stub_calls:
  "calls (IssueJoinTicket stubImports stubServer stubRequest) =
     [CallGetDataKey ''measurementSecret'' 32,
      CallGetDataKey ''uuid'' 32,
      CallGetDataKey ''ca_emergency_ssh'' 32,
      CallGenerateEmergencySSHCAKey ''key of ca_emergency_ssh.........'',
      CallRead ''/var/run/state/ssh/principals'',
      CallParsePublicKey (ed25519Header @ ''0123456789abcdef0123456789abcdef''),
      CallGenerateSSHHostCertificate [''node'', ''admin'', ''root'']
              (PublicKey ''0123456789abcdef0123456789abcdef'') (Signer ''key of ca_emergency_ssh.........''),
      CallGetJoinToken 900,
      CallGetK8sComponentsRefFromNodeVersionCRD ''constellation-version'',
      CallGetComponents ''k8s-components'',
      CallGetCertificate ''request'',
      CallGetControlPlaneCertificatesAndKeys,
      CallGetNodeNameFromCSR ''request'',
      CallAddNodeToJoiningNodes ''node'' ''k8s-components'' True]"
  by (simp add: stub_run calls_def)


lemma isError_statusCode: "isError r \<Longrightarrow> statusCode r = Some Internal"
  by (induction r rule: isError.induct) simp_all

lemma last_or_butlast:
  assumes "x \<in> set xs"
  shows "x \<in> set (butlast xs) \<or> x = last xs"
proof -
  from assms have "xs \<noteq> []" by auto
  then have "butlast xs @ [last xs] = xs" by simp
  then have "set xs = set (butlast xs) \<union> {last xs}"
    by (metis set_append list.simps(15) empty_set)
  with assms show ?thesis by auto
qed


subsection \<open>Atomicity of a join request\<close>

text \<open>
  C3: a call of \<^verbatim>\<open>IssueJoinTicket\<close> ends with an error and no response, or with a
  response and no error (or it panics, see C9): never with both, never with a response
  next to an error. It returns the error exactly when one of its steps failed, and it
  stops at the first step that fails. The registration is the last call it makes:
  no call before the last one is a registration. So when an error is returned and a
  registration was attempted, it is the registration that failed; and a run without
  error has made every step.
\<close>

theorem IssueJoinTicket_atomic:
  "wellFormed (snd (IssueJoinTicket im s req))
   \<and> ((\<exists>c \<in> set (calls (IssueJoinTicket im s req)). callFails im s c) =
        isError (snd (IssueJoinTicket im s req)))
   \<and> (\<forall>c \<in> set (butlast (calls (IssueJoinTicket im s req))).
         \<not> callFails im s c \<and> \<not> isRegistration c)
   \<and> (isError (snd (IssueJoinTicket im s req)) \<longrightarrow>
        (\<forall>c \<in> set (calls (IssueJoinTicket im s req)). isRegistration c \<longrightarrow> callFails im s c))
   \<and> (\<not> isError (snd (IssueJoinTicket im s req)) \<longrightarrow>
        map stepOf (calls (IssueJoinTicket im s req)) = stepOrder (IsControlPlane req))"
proof (intro conjI)
  let ?run = "IssueJoinTicket im s req"
  show "wellFormed (snd ?run)" by (rule join_wellFormed)
  show fails: "(\<exists>c \<in> set (calls ?run). callFails im s c) = isError (snd ?run)"
    by (rule join_failure)
  show stops: "\<forall>c \<in> set (butlast (calls ?run)). \<not> callFails im s c \<and> \<not> isRegistration c"
    by (rule join_stops)
  show "isError (snd ?run) \<longrightarrow> (\<forall>c \<in> set (calls ?run). isRegistration c \<longrightarrow> callFails im s c)"
  proof (intro impI ballI)
    fix c
    assume err: "isError (snd ?run)" and c: "c \<in> set (calls ?run)" and reg: "isRegistration c"
    from err fails obtain c0 where c0: "c0 \<in> set (calls ?run)" "callFails im s c0" by blast
    from c0 stops last_or_butlast [OF c0(1)] have "c0 = last (calls ?run)" by blast
    moreover from c reg stops last_or_butlast [OF c] have "c = last (calls ?run)" by blast
    ultimately show "callFails im s c" using c0(2) by simp
  qed
  show "\<not> isError (snd ?run) \<longrightarrow> map stepOf (calls ?run) = stepOrder (IsControlPlane req)"
    using join_order [of im s req] by simp
qed


lemma registryFailing_run:
  "snd (IssueJoinTicket stubImports registryFailingServer stubRequest) =
     Return None (Some (GrpcStatus Internal ''adding node to joining nodes: registry unavailable''))"
  "calls (IssueJoinTicket stubImports registryFailingServer stubRequest) =
     calls (IssueJoinTicket stubImports stubServer stubRequest)"
  by (simp_all add: run_defs registryFailingServer_def calls_def)

theorem IssueJoinTicket_atomic_witness:
  "isError (snd (IssueJoinTicket stubImports registryFailingServer stubRequest))
   \<and> snd (IssueJoinTicket stubImports registryFailingServer stubRequest) =
       Return None (Some (GrpcStatus Internal ''adding node to joining nodes: registry unavailable''))
   \<and> CallAddNodeToJoiningNodes ''node'' ''k8s-components'' True
       \<in> set (calls (IssueJoinTicket stubImports registryFailingServer stubRequest))
   \<and> isRegistration (CallAddNodeToJoiningNodes ''node'' ''k8s-components'' True)
   \<and> callFails stubImports registryFailingServer
        (CallAddNodeToJoiningNodes ''node'' ''k8s-components'' True)
   \<and> CallGetDataKey ''uuid'' 32
       \<in> set (butlast (calls (IssueJoinTicket stubImports registryFailingServer stubRequest)))
   \<and> \<not> callFails stubImports registryFailingServer (CallGetDataKey ''uuid'' 32)
   \<and> \<not> isError (snd (IssueJoinTicket stubImports stubServer stubRequest))
   \<and> map stepOf (calls (IssueJoinTicket stubImports stubServer stubRequest)) = stepOrder True"
proof -
  note failing = IssueJoinTicket_atomic [of stubImports registryFailingServer stubRequest]
  note working = IssueJoinTicket_atomic [of stubImports stubServer stubRequest]
  have err: "isError (snd (IssueJoinTicket stubImports registryFailingServer stubRequest))"
    by (simp add: registryFailing_run)
  have reg: "CallAddNodeToJoiningNodes ''node'' ''k8s-components'' True
       \<in> set (calls (IssueJoinTicket stubImports registryFailingServer stubRequest))"
    by (simp add: registryFailing_run stub_calls)
  have isreg: "isRegistration (CallAddNodeToJoiningNodes ''node'' ''k8s-components'' True)"
    by simp
  from failing err reg isreg
  have fails: "callFails stubImports registryFailingServer
        (CallAddNodeToJoiningNodes ''node'' ''k8s-components'' True)"
    by blast
  have early: "CallGetDataKey ''uuid'' 32
       \<in> set (butlast (calls (IssueJoinTicket stubImports registryFailingServer stubRequest)))"
    by (simp add: registryFailing_run stub_calls)
  from failing early
  have ok: "\<not> callFails stubImports registryFailingServer (CallGetDataKey ''uuid'' 32)"
    by blast
  have noerr: "\<not> isError (snd (IssueJoinTicket stubImports stubServer stubRequest))"
    by (simp add: stub_run)
  from working noerr
  have full: "map stepOf (calls (IssueJoinTicket stubImports stubServer stubRequest)) =
              stepOrder (IsControlPlane stubRequest)"
    by blast
  then have full': "map stepOf (calls (IssueJoinTicket stubImports stubServer stubRequest)) =
              stepOrder True"
    by (simp add: stubRequest_def)
  show ?thesis
    using err registryFailing_run(1) reg isreg fails early ok noerr full' by (intro conjI)
qed

subsection \<open>The order of the steps\<close>

lemma register_expected:
  assumes "getK8sComponentsConfigMapName im s = Inr cm"
  shows "\<forall>c \<in> set (calls (registerAndRespond im s req sdk ms ka kc cpf comps cm ca hc)).
           expectedCall im s req c"
  using assms by (simp add: registerAndRespond_def split: sum.splits option.splits)

lemma middle_expected:
  "\<forall>c \<in> set (calls (tokenComponentsAndKubelet im s req sdk ms ca hc)).
      expectedCall im s req c"
proof (cases "getK8sComponentsConfigMapName im s")
  case (Inl err)
  then show ?thesis
    by (simp add: tokenComponentsAndKubelet_def split: sum.splits)
next
  case (Inr cm)
  with register_expected [OF Inr] show ?thesis
    by (simp add: tokenComponentsAndKubelet_def split: sum.splits)
qed

lemma join_expected:
  "\<forall>c \<in> set (calls (IssueJoinTicket im s req)). expectedCall im s req c"
  using middle_expected [of im s req]
  by (simp add: IssueJoinTicket_def Let_def split: sum.splits)

lemma join_secrets_first:
  "prefix (take 3 (calls (IssueJoinTicket im s req)))
     [CallGetDataKey (MeasurementSecretContext im) (DerivedKeyLengthDefault im),
      CallGetDataKey (DiskUuid req) (StateDiskKeyLength im),
      CallGetDataKey (SSHCAKeySuffix im) SeedSize]"
  by (simp add: IssueJoinTicket_def Let_def split: sum.splits)

lemma join_error_at_last:
  assumes "isError (snd (IssueJoinTicket im s req))"
  shows "callFails im s (last (calls (IssueJoinTicket im s req)))"
proof -
  from assms join_failure [of im s req] obtain c
    where c: "c \<in> set (calls (IssueJoinTicket im s req))" "callFails im s c"
    by auto
  from last_or_butlast [OF c(1)] join_stops [of im s req] c(2)
  have "c = last (calls (IssueJoinTicket im s req))" by auto
  with c(2) show ?thesis by simp
qed

text \<open>
  The specification's order of states puts both certificates before the components.
  On the stand-in server, where every step succeeds and the host key of the request is
  a well-formed ed25519 key, the calls of a join request are not in that order: the
  kubelet certificate is asked for after the components have been resolved and
  fetched.
\<close>

theorem kubelet_certificate_after_components_counterexample:
  "map stepOf (calls (IssueJoinTicket stubImports stubServer stubRequest)) =
       [StepGetDataKey, StepGetDataKey, StepGetDataKey,
        StepGenerateEmergencySSHCAKey, StepRead, StepParsePublicKey,
        StepGenerateSSHHostCertificate, StepGetJoinToken,
        StepGetK8sComponentsRefFromNodeVersionCRD, StepGetComponents,
        StepGetCertificate, StepGetControlPlaneCertificatesAndKeys,
        StepGetNodeNameFromCSR, StepAddNodeToJoiningNodes]
   \<and> \<not> inOrder specRank (calls (IssueJoinTicket stubImports stubServer stubRequest))"
  by (simp add: stub_calls inOrder_def List.map_filter_def)


text \<open>
  C7, as the source has it: the calls of a join request are a prefix of one fixed
  sequence, and the whole of it unless an error is returned: the three secrets, the
  SSH CA key, the principals file, the host public key, the host certificate, the join
  token, the components reference, the components, the kubelet certificate, the
  control-plane files for a control-plane node, the node name, the registration. The
  request stops at the first call that fails: no call before the last one fails, an
  error is returned exactly when a call failed, and then it is the last call made. The
  first three calls are the key requests for the measurement secret, the state disk
  key and the SSH CA seed, in this order, and every call carries the arguments the
  source passes. So the secrets come before every certificate, the host certificate
  before the components, the components before the kubelet certificate, and the
  registration after all of them and before the response.
\<close>

theorem IssueJoinTicket_step_order:
  "prefix (map stepOf (calls (IssueJoinTicket im s req))) (stepOrder (IsControlPlane req))
   \<and> (\<not> isError (snd (IssueJoinTicket im s req)) \<longrightarrow>
        map stepOf (calls (IssueJoinTicket im s req)) = stepOrder (IsControlPlane req))
   \<and> inOrder codeRank (calls (IssueJoinTicket im s req))
   \<and> (\<forall>c \<in> set (butlast (calls (IssueJoinTicket im s req))). \<not> callFails im s c)
   \<and> isError (snd (IssueJoinTicket im s req)) =
        (\<exists>c \<in> set (calls (IssueJoinTicket im s req)). callFails im s c)
   \<and> (isError (snd (IssueJoinTicket im s req)) \<longrightarrow>
        callFails im s (last (calls (IssueJoinTicket im s req))))
   \<and> prefix (take 3 (calls (IssueJoinTicket im s req)))
        [CallGetDataKey (MeasurementSecretContext im) (DerivedKeyLengthDefault im),
         CallGetDataKey (DiskUuid req) (StateDiskKeyLength im),
         CallGetDataKey (SSHCAKeySuffix im) SeedSize]
   \<and> (\<forall>c \<in> set (calls (IssueJoinTicket im s req)). expectedCall im s req c)"
proof (intro conjI)
  let ?run = "IssueJoinTicket im s req"
  note order = join_order [of im s req]
  from order show pre: "prefix (map stepOf (calls ?run)) (stepOrder (IsControlPlane req))"
    by (rule conjunct1)
  from order show "\<not> isError (snd ?run) \<longrightarrow>
        map stepOf (calls ?run) = stepOrder (IsControlPlane req)"
    by (rule conjunct2)
  from pre stepOrder_codeRank
  have "sorted (List.map_filter codeRank (map stepOf (calls ?run)))"
    by (rule prefix_inOrder)
  then show "inOrder codeRank (calls ?run)"
    by (simp add: inOrder_def)
  show "\<forall>c \<in> set (butlast (calls ?run)). \<not> callFails im s c"
    using join_stops [of im s req] by simp
  show "isError (snd ?run) = (\<exists>c \<in> set (calls ?run). callFails im s c)"
    using join_failure [of im s req] by simp
  show "isError (snd ?run) \<longrightarrow> callFails im s (last (calls ?run))"
    using join_error_at_last [of im s req] by simp
  show "prefix (take 3 (calls ?run))
        [CallGetDataKey (MeasurementSecretContext im) (DerivedKeyLengthDefault im),
         CallGetDataKey (DiskUuid req) (StateDiskKeyLength im),
         CallGetDataKey (SSHCAKeySuffix im) SeedSize]"
    by (rule join_secrets_first)
  show "\<forall>c \<in> set (calls ?run). expectedCall im s req c"
    by (rule join_expected)
qed


lemma noPrincipals_run:
  "snd (IssueJoinTicket stubImports noPrincipalsServer stubRequest) =
     Return None (Some (GrpcStatus Internal
       ''reading additional principals file: file does not exist''))"
  "calls (IssueJoinTicket stubImports noPrincipalsServer stubRequest) =
     [CallGetDataKey ''measurementSecret'' 32,
      CallGetDataKey ''uuid'' 32,
      CallGetDataKey ''ca_emergency_ssh'' 32,
      CallGenerateEmergencySSHCAKey ''key of ca_emergency_ssh.........'',
      CallRead ''/var/run/state/ssh/principals'']"
  by (simp_all add: run_defs noPrincipalsServer_def calls_def)

theorem IssueJoinTicket_step_order_witness:
  "isError (snd (IssueJoinTicket stubImports noPrincipalsServer stubRequest))
   \<and> calls (IssueJoinTicket stubImports noPrincipalsServer stubRequest) =
       [CallGetDataKey ''measurementSecret'' 32,
        CallGetDataKey ''uuid'' 32,
        CallGetDataKey ''ca_emergency_ssh'' 32,
        CallGenerateEmergencySSHCAKey ''key of ca_emergency_ssh.........'',
        CallRead ''/var/run/state/ssh/principals'']
   \<and> callFails stubImports noPrincipalsServer (CallRead ''/var/run/state/ssh/principals'')
   \<and> \<not> callFails stubImports noPrincipalsServer (CallGetDataKey ''uuid'' 32)
   \<and> expectedCall stubImports noPrincipalsServer stubRequest (CallGetDataKey ''uuid'' 32)
   \<and> \<not> isError (snd (IssueJoinTicket stubImports stubServer stubRequest))
   \<and> map stepOf (calls (IssueJoinTicket stubImports stubServer stubRequest)) =
       [StepGetDataKey, StepGetDataKey, StepGetDataKey,
        StepGenerateEmergencySSHCAKey, StepRead, StepParsePublicKey,
        StepGenerateSSHHostCertificate, StepGetJoinToken,
        StepGetK8sComponentsRefFromNodeVersionCRD, StepGetComponents,
        StepGetCertificate, StepGetControlPlaneCertificatesAndKeys,
        StepGetNodeNameFromCSR, StepAddNodeToJoiningNodes]
   \<and> inOrder codeRank (calls (IssueJoinTicket stubImports stubServer stubRequest))"
proof -
  note failing = IssueJoinTicket_step_order [of stubImports noPrincipalsServer stubRequest]
  note working = IssueJoinTicket_step_order [of stubImports stubServer stubRequest]
  have err: "isError (snd (IssueJoinTicket stubImports noPrincipalsServer stubRequest))"
    by (simp add: noPrincipals_run)
  note atLast = failing [THEN conjunct2, THEN conjunct2, THEN conjunct2, THEN conjunct2,
      THEN conjunct2, THEN conjunct1, THEN mp, OF err]
  then have fails: "callFails stubImports noPrincipalsServer
                      (CallRead ''/var/run/state/ssh/principals'')"
    by (simp add: noPrincipals_run)
  have early: "CallGetDataKey ''uuid'' 32
      \<in> set (butlast (calls (IssueJoinTicket stubImports noPrincipalsServer stubRequest)))"
    by (simp add: noPrincipals_run)
  note ok = failing [THEN conjunct2, THEN conjunct2, THEN conjunct2, THEN conjunct1,
      THEN bspec, OF early]
  have made: "CallGetDataKey ''uuid'' 32
      \<in> set (calls (IssueJoinTicket stubImports noPrincipalsServer stubRequest))"
    by (simp add: noPrincipals_run)
  note expected = failing [THEN conjunct2, THEN conjunct2, THEN conjunct2, THEN conjunct2,
      THEN conjunct2, THEN conjunct2, THEN conjunct2, THEN bspec, OF made]
  have noerr: "\<not> isError (snd (IssueJoinTicket stubImports stubServer stubRequest))"
    by (simp add: stub_run)
  note full = working [THEN conjunct2, THEN conjunct1, THEN mp, OF noerr]
  then have steps: "map stepOf (calls (IssueJoinTicket stubImports stubServer stubRequest)) =
       [StepGetDataKey, StepGetDataKey, StepGetDataKey,
        StepGenerateEmergencySSHCAKey, StepRead, StepParsePublicKey,
        StepGenerateSSHHostCertificate, StepGetJoinToken,
        StepGetK8sComponentsRefFromNodeVersionCRD, StepGetComponents,
        StepGetCertificate, StepGetControlPlaneCertificatesAndKeys,
        StepGetNodeNameFromCSR, StepAddNodeToJoiningNodes]"
    by (simp add: stubRequest_def stepOrder_def)
  note ord = working [THEN conjunct2, THEN conjunct2, THEN conjunct1]
  show ?thesis
    using err noPrincipals_run(2) fails ok expected noerr steps ord by (intro conjI)
qed


subsection \<open>A certificate request that cannot be used\<close>

lemma noNodeName_run:
  "snd (IssueJoinTicket stubImports noNodeNameServer stubRequest) =
     Return None (Some (GrpcStatus Internal ''getting node name from CSR: no node name''))"
  by (simp add: run_defs noNodeNameServer_def)

lemma unparsableCSR_run:
  "snd (IssueJoinTicket stubImports unparsableCSRServer stubRequest) =
     Return None (Some (GrpcStatus Internal ''Generating kubelet certificate: unable to parse CSR''))"
  by (simp add: run_defs unparsableCSRServer_def)

lemma kmsFailing_run:
  "snd (IssueJoinTicket stubImports kmsFailingServer stubRequest) =
     Return None (Some (GrpcStatus Internal ''getting measurement secret: kms unavailable''))"
  by (simp add: run_defs kmsFailingServer_def)


text \<open>
  The specification asks for an invalid-request error when the certificate request
  cannot be parsed or names no node. With a certificate authority that finds no node
  name, and with one that cannot parse the request, the status returned has the code
  \<^verbatim>\<open>Internal\<close>, not \<^verbatim>\<open>InvalidArgument\<close>, and it is the code returned when the key
  management system fails.
\<close>

theorem csr_failure_not_InvalidArgument_counterexample:
  "statusCode (snd (IssueJoinTicket stubImports noNodeNameServer stubRequest)) = Some Internal
   \<and> statusCode (snd (IssueJoinTicket stubImports noNodeNameServer stubRequest))
       \<noteq> Some InvalidArgument
   \<and> statusCode (snd (IssueJoinTicket stubImports unparsableCSRServer stubRequest)) = Some Internal
   \<and> statusCode (snd (IssueJoinTicket stubImports unparsableCSRServer stubRequest))
       \<noteq> Some InvalidArgument
   \<and> statusCode (snd (IssueJoinTicket stubImports noNodeNameServer stubRequest)) =
       statusCode (snd (IssueJoinTicket stubImports kmsFailingServer stubRequest))"
  by (simp add: noNodeName_run unparsableCSR_run kmsFailing_run)

lemma register_bad_csr:
  assumes "isl (GetNodeNameFromCSR s (CertificateRequest req))"
  shows "isError (snd (registerAndRespond im s req sdk ms ka kc cpf comps cm ca hc))
       \<and> (\<forall>c \<in> set (calls (registerAndRespond im s req sdk ms ka kc cpf comps cm ca hc)).
            \<not> isRegistration c)"
  using assms
  by (cases "GetNodeNameFromCSR s (CertificateRequest req)")
     (simp_all add: registerAndRespond_def)

lemma middle_bad_csr:
  assumes "isl (GetCertificate s (CertificateRequest req))
         \<or> isl (GetNodeNameFromCSR s (CertificateRequest req))"
  shows "isError (snd (tokenComponentsAndKubelet im s req sdk ms ca hc))
       \<and> (\<forall>c \<in> set (calls (tokenComponentsAndKubelet im s req sdk ms ca hc)).
            \<not> isRegistration c)"
  using assms
  by (auto simp: tokenComponentsAndKubelet_def getK8sComponentsConfigMapName_def
        register_bad_csr split: sum.splits)

lemma join_bad_csr:
  assumes "isl (GetCertificate s (CertificateRequest req))
         \<or> isl (GetNodeNameFromCSR s (CertificateRequest req))"
  shows "isError (snd (IssueJoinTicket im s req))
       \<and> (\<forall>c \<in> set (calls (IssueJoinTicket im s req)). \<not> isRegistration c)"
  using middle_bad_csr [OF assms, of im]
  by (simp add: IssueJoinTicket_def Let_def split: sum.splits)


text \<open>
  C8, as the source has it: when the certificate authority cannot sign the certificate
  request or finds no node name in it, the call returns no response and a status of
  code \<^verbatim>\<open>Internal\<close>, and it makes no registration call.
\<close>

theorem csr_failure_is_internal:
  "isl (GetCertificate s (CertificateRequest req))
     \<or> isl (GetNodeNameFromCSR s (CertificateRequest req)) \<longrightarrow>
   isError (snd (IssueJoinTicket im s req))
   \<and> statusCode (snd (IssueJoinTicket im s req)) = Some Internal
   \<and> (\<forall>c \<in> set (calls (IssueJoinTicket im s req)). \<not> isRegistration c)"
  using join_bad_csr [of s req im] by (simp add: isError_statusCode)

theorem csr_failure_is_internal_witness:
  "isl (GetNodeNameFromCSR noNodeNameServer (CertificateRequest stubRequest))
   \<and> isError (snd (IssueJoinTicket stubImports noNodeNameServer stubRequest))
   \<and> statusCode (snd (IssueJoinTicket stubImports noNodeNameServer stubRequest)) = Some Internal
   \<and> CallGetNodeNameFromCSR ''request''
        \<in> set (calls (IssueJoinTicket stubImports noNodeNameServer stubRequest))
   \<and> \<not> isRegistration (CallGetNodeNameFromCSR ''request'')"
proof -
  note inst = csr_failure_is_internal [of noNodeNameServer stubRequest stubImports]
  have bad: "isl (GetNodeNameFromCSR noNodeNameServer (CertificateRequest stubRequest))"
    by (simp add: noNodeNameServer_def stubServer_def)
  from inst bad
  have err: "isError (snd (IssueJoinTicket stubImports noNodeNameServer stubRequest))"
    and code: "statusCode (snd (IssueJoinTicket stubImports noNodeNameServer stubRequest)) = Some Internal"
    and noreg: "\<forall>c \<in> set (calls (IssueJoinTicket stubImports noNodeNameServer stubRequest)).
                  \<not> isRegistration c"
    by blast+
  have called: "CallGetNodeNameFromCSR ''request''
        \<in> set (calls (IssueJoinTicket stubImports noNodeNameServer stubRequest))"
    by (simp add: run_defs noNodeNameServer_def calls_def)
  from noreg called have "\<not> isRegistration (CallGetNodeNameFromCSR ''request'')"
    by blast
  with bad err code called show ?thesis by (intro conjI)
qed

subsection \<open>The CA certificate hash of the response\<close>

lemma reachedResponse_after [simp]:
  "reachedResponse (after evs run) =
     (LogInfo ''IssueJoinTicket successful'' \<in> set evs \<or> reachedResponse run)"
  by (auto simp: reachedResponse_def)

lemma reachedResponse_failed [simp]: "\<not> reachedResponse (failed l e)"
  by (simp add: reachedResponse_def)

lemma joinResponse_respondsOrPanics:
  "respondsOrPanics ka (joinResponse im s sdk ms ka kc cpf comps ca hc)"
  by (simp add: respondsOrPanics_def joinResponse_def split: list.splits)

lemma register_reached:
  "reachedResponse (registerAndRespond im s req sdk ms ka kc cpf comps cm ca hc) \<longrightarrow>
     respondsOrPanics ka (snd (registerAndRespond im s req sdk ms ka kc cpf comps cm ca hc))"
  by (simp add: registerAndRespond_def joinResponse_respondsOrPanics reachedResponse_def
        split: sum.splits option.splits)

lemma middle_reached:
  "reachedResponse (tokenComponentsAndKubelet im s req sdk ms ca hc) \<longrightarrow>
     (\<exists>ka. GetJoinToken s (KubernetesJoinTokenTTL im) = Inr ka \<and>
           respondsOrPanics ka (snd (tokenComponentsAndKubelet im s req sdk ms ca hc)))"
  using register_reached
  by (simp add: tokenComponentsAndKubelet_def getK8sComponentsConfigMapName_def
        split: sum.splits)

lemma join_reached:
  "reachedResponse (IssueJoinTicket im s req) \<longrightarrow>
     (\<exists>ka. GetJoinToken s (KubernetesJoinTokenTTL im) = Inr ka \<and>
           respondsOrPanics ka (snd (IssueJoinTicket im s req)))"
  using middle_reached
  by (simp add: IssueJoinTicket_def Let_def split: sum.splits)

lemma register_panic:
  "snd (registerAndRespond im s req sdk ms ka kc cpf comps cm ca hc) = Panic msg \<longrightarrow>
     reachedResponse (registerAndRespond im s req sdk ms ka kc cpf comps cm ca hc)"
  by (simp add: registerAndRespond_def reachedResponse_def split: sum.splits option.splits)

lemma middle_panic:
  "snd (tokenComponentsAndKubelet im s req sdk ms ca hc) = Panic msg \<longrightarrow>
     reachedResponse (tokenComponentsAndKubelet im s req sdk ms ca hc)"
  using register_panic
  by (simp add: tokenComponentsAndKubelet_def getK8sComponentsConfigMapName_def
        split: sum.splits)

lemma join_panic:
  "snd (IssueJoinTicket im s req) = Panic msg \<longrightarrow> reachedResponse (IssueJoinTicket im s req)"
  using middle_panic
  by (simp add: IssueJoinTicket_def Let_def split: sum.splits)


text \<open>
  C9: a call of \<^verbatim>\<open>IssueJoinTicket\<close> that reaches its return statement has got a
  join token, and what it does next depends on the token's list of CA certificate
  hashes alone: with an empty list the index expression panics and nothing is
  returned; with a non-empty list the response is returned, with the first hash. A
  panic happens nowhere else. So the call returns, with a response or with an error,
  whenever the join token getter yields no empty hash list.
\<close>

theorem CACertHashes_index_unguarded:
  "(reachedResponse (IssueJoinTicket im s req) \<longrightarrow>
      (\<exists>kubeArgs. GetJoinToken s (KubernetesJoinTokenTTL im) = Inr kubeArgs \<and>
         (CACertHashes kubeArgs = [] \<longrightarrow>
            snd (IssueJoinTicket im s req) =
              Panic ''runtime error: index out of range [0] with length 0'') \<and>
         (CACertHashes kubeArgs \<noteq> [] \<longrightarrow>
            (\<exists>resp. snd (IssueJoinTicket im s req) = Return (Some resp) None \<and>
                    DiscoveryTokenCaCertHash resp = hd (CACertHashes kubeArgs)))))
   \<and> ((\<exists>msg. snd (IssueJoinTicket im s req) = Panic msg) \<longrightarrow>
        reachedResponse (IssueJoinTicket im s req))
   \<and> ((\<forall>kubeArgs. GetJoinToken s (KubernetesJoinTokenTTL im) = Inr kubeArgs \<longrightarrow>
                   CACertHashes kubeArgs \<noteq> []) \<longrightarrow>
        (\<exists>resp err. snd (IssueJoinTicket im s req) = Return resp err))"
proof (intro conjI impI)
  let ?run = "IssueJoinTicket im s req"
  assume "reachedResponse ?run"
  with join_reached [of im s req]
  show "\<exists>kubeArgs. GetJoinToken s (KubernetesJoinTokenTTL im) = Inr kubeArgs \<and>
         (CACertHashes kubeArgs = [] \<longrightarrow>
            snd ?run = Panic ''runtime error: index out of range [0] with length 0'') \<and>
         (CACertHashes kubeArgs \<noteq> [] \<longrightarrow>
            (\<exists>resp. snd ?run = Return (Some resp) None \<and>
                    DiscoveryTokenCaCertHash resp = hd (CACertHashes kubeArgs)))"
    by (simp add: respondsOrPanics_def)
next
  let ?run = "IssueJoinTicket im s req"
  assume "\<exists>msg. snd ?run = Panic msg"
  then show "reachedResponse ?run" using join_panic [of im s req] by blast
next
  let ?run = "IssueJoinTicket im s req"
  assume hashes: "\<forall>kubeArgs. GetJoinToken s (KubernetesJoinTokenTTL im) = Inr kubeArgs \<longrightarrow>
                   CACertHashes kubeArgs \<noteq> []"
  show "\<exists>resp err. snd ?run = Return resp err"
  proof (cases "snd ?run")
    case (Return resp err)
    then show ?thesis by blast
  next
    case (Panic msg)
    with join_panic [of im s req msg] have "reachedResponse ?run" by simp
    with join_reached [of im s req] obtain ka
      where ka: "GetJoinToken s (KubernetesJoinTokenTTL im) = Inr ka"
        and res: "respondsOrPanics ka (snd ?run)"
      by blast
    from hashes ka have "CACertHashes ka \<noteq> []" by blast
    with res Panic show ?thesis by (simp add: respondsOrPanics_def)
  qed
qed


lemma noHash_run:
  "snd (IssueJoinTicket stubImports noHashServer stubRequest) =
     Panic ''runtime error: index out of range [0] with length 0''"
  "reachedResponse (IssueJoinTicket stubImports noHashServer stubRequest)"
  "CallAddNodeToJoiningNodes ''node'' ''k8s-components'' True
     \<in> set (calls (IssueJoinTicket stubImports noHashServer stubRequest))"
  by (simp_all add: run_defs noHashServer_def reachedResponse_def calls_def)

theorem CACertHashes_index_unguarded_witness:
  "reachedResponse (IssueJoinTicket stubImports noHashServer stubRequest)
   \<and> GetJoinToken noHashServer (KubernetesJoinTokenTTL stubImports) =
       Inr \<lparr>JoinToken = ''token'', APIServerEndpoint = ''192.0.2.1:6443'', CACertHashes = []\<rparr>
   \<and> snd (IssueJoinTicket stubImports noHashServer stubRequest) =
       Panic ''runtime error: index out of range [0] with length 0''
   \<and> reachedResponse (IssueJoinTicket stubImports stubServer stubRequest)
   \<and> GetJoinToken stubServer (KubernetesJoinTokenTTL stubImports) =
       Inr \<lparr>JoinToken = ''token'', APIServerEndpoint = ''192.0.2.1:6443'',
            CACertHashes = [''sha256:hash'']\<rparr>
   \<and> (\<exists>resp err. snd (IssueJoinTicket stubImports stubServer stubRequest) = Return resp err)"
proof -
  note panics = CACertHashes_index_unguarded [of stubImports noHashServer stubRequest]
  note returns = CACertHashes_index_unguarded [of stubImports stubServer stubRequest]
  have token: "GetJoinToken noHashServer (KubernetesJoinTokenTTL stubImports) =
       Inr \<lparr>JoinToken = ''token'', APIServerEndpoint = ''192.0.2.1:6443'', CACertHashes = []\<rparr>"
    by (simp add: noHashServer_def stubServer_def)
  from panics noHash_run(2) obtain ka
    where ka: "GetJoinToken noHashServer (KubernetesJoinTokenTTL stubImports) = Inr ka"
      and p: "CACertHashes ka = [] \<longrightarrow>
            snd (IssueJoinTicket stubImports noHashServer stubRequest) =
              Panic ''runtime error: index out of range [0] with length 0''"
    by blast
  from ka token have "ka = \<lparr>JoinToken = ''token'', APIServerEndpoint = ''192.0.2.1:6443'',
                            CACertHashes = []\<rparr>"
    by simp
  then have "CACertHashes ka = []" by simp
  with p have panic: "snd (IssueJoinTicket stubImports noHashServer stubRequest) =
       Panic ''runtime error: index out of range [0] with length 0''"
    by simp
  have reached: "reachedResponse (IssueJoinTicket stubImports stubServer stubRequest)"
    by (simp add: stub_run reachedResponse_def)
  have hashes: "\<forall>kubeArgs. GetJoinToken stubServer (KubernetesJoinTokenTTL stubImports) = Inr kubeArgs \<longrightarrow>
                   CACertHashes kubeArgs \<noteq> []"
    by (auto simp: stubServer_def)
  from returns hashes
  have total: "\<exists>resp err. snd (IssueJoinTicket stubImports stubServer stubRequest) = Return resp err"
    by blast
  have token': "GetJoinToken stubServer (KubernetesJoinTokenTTL stubImports) =
       Inr \<lparr>JoinToken = ''token'', APIServerEndpoint = ''192.0.2.1:6443'',
            CACertHashes = [''sha256:hash'']\<rparr>"
    by (simp add: stubServer_def)
  show ?thesis
    using noHash_run(2) token panic reached token' total by (intro conjI)
qed

subsection \<open>The measurement secret\<close>

lemma join_first_call:
  "hd (calls (IssueJoinTicket im s req)) =
     CallGetDataKey (MeasurementSecretContext im) (DerivedKeyLengthDefault im)"
  by (simp add: IssueJoinTicket_def)

lemma rejoin_first_call:
  "hd (calls (IssueRejoinTicket im s req)) =
     CallGetDataKey (MeasurementSecretContext im) (DerivedKeyLengthDefault im)"
  by (simp add: IssueRejoinTicket_def)


text \<open>
  C10: \<^verbatim>\<open>IssueJoinTicket\<close> and \<^verbatim>\<open>IssueRejoinTicket\<close> both begin by asking the key
  getter for the measurement secret under the same context label and length. The key
  getter is a function of label and length, fixed by master secret and salt; so on
  servers with the same key getter every join response and every rejoin response
  carries the same measurement secret, whatever the request and whichever the server.
\<close>

theorem measurement_secret_shared:
  "hd (calls (IssueJoinTicket im s req)) =
     CallGetDataKey (MeasurementSecretContext im) (DerivedKeyLengthDefault im)
   \<and> hd (calls (IssueRejoinTicket im s' rejoin)) =
     CallGetDataKey (MeasurementSecretContext im) (DerivedKeyLengthDefault im)
   \<and> (GetDataKey s = GetDataKey s' \<longrightarrow>
        (\<forall>r e r' e'.
           snd (IssueJoinTicket im s req) = Return (Some r) e \<and>
           snd (IssueJoinTicket im s' req') = Return (Some r') e' \<longrightarrow>
           MeasurementSecret r = MeasurementSecret r')
      \<and> (\<forall>r e r' e'.
           snd (IssueJoinTicket im s req) = Return (Some r) e \<and>
           snd (IssueRejoinTicket im s' rejoin) = Return (Some r') e' \<longrightarrow>
           MeasurementSecret r = RejoinMeasurementSecret r')
      \<and> (\<forall>r e r' e'.
           snd (IssueRejoinTicket im s rejoin') = Return (Some r) e \<and>
           snd (IssueRejoinTicket im s' rejoin) = Return (Some r') e' \<longrightarrow>
           RejoinMeasurementSecret r = RejoinMeasurementSecret r'))"
proof (intro conjI impI allI)
  show "hd (calls (IssueJoinTicket im s req)) =
     CallGetDataKey (MeasurementSecretContext im) (DerivedKeyLengthDefault im)"
    by (rule join_first_call)
  show "hd (calls (IssueRejoinTicket im s' rejoin)) =
     CallGetDataKey (MeasurementSecretContext im) (DerivedKeyLengthDefault im)"
    by (rule rejoin_first_call)
next
  fix r e r' e'
  assume same: "GetDataKey s = GetDataKey s'"
    and ret: "snd (IssueJoinTicket im s req) = Return (Some r) e \<and>
              snd (IssueJoinTicket im s' req') = Return (Some r') e'"
  from ret join_success [of im s req r e] join_success [of im s' req' r' e'] same
  show "MeasurementSecret r = MeasurementSecret r'" by simp
next
  fix r e r' e'
  assume same: "GetDataKey s = GetDataKey s'"
    and ret: "snd (IssueJoinTicket im s req) = Return (Some r) e \<and>
              snd (IssueRejoinTicket im s' rejoin) = Return (Some r') e'"
  from ret join_success [of im s req r e] rejoin_success [of im s' rejoin r' e'] same
  show "MeasurementSecret r = RejoinMeasurementSecret r'" by simp
next
  fix r e r' e'
  assume same: "GetDataKey s = GetDataKey s'"
    and ret: "snd (IssueRejoinTicket im s rejoin') = Return (Some r) e \<and>
              snd (IssueRejoinTicket im s' rejoin) = Return (Some r') e'"
  from ret rejoin_success [of im s rejoin' r e] rejoin_success [of im s' rejoin r' e'] same
  show "RejoinMeasurementSecret r = RejoinMeasurementSecret r'" by simp
qed

lemma worker_run:
  "\<exists>r. snd (IssueJoinTicket stubImports stubServer workerRequest) = Return (Some r) None
       \<and> MeasurementSecret r = ''key of measurementSecret........''
       \<and> StateDiskKey r = ''key of other uuid...............''"
  by (simp add: run_defs workerRequest_def)

lemma stub_response:
  "\<exists>r. snd (IssueJoinTicket stubImports stubServer stubRequest) = Return (Some r) None
       \<and> MeasurementSecret r = ''key of measurementSecret........''
       \<and> StateDiskKey r = ''key of uuid.....................''"
  by (simp add: stub_run)

lemma rejoin_response:
  "\<exists>r. snd (IssueRejoinTicket stubImports noNodeNameServer stubRejoinRequest) =
         Return (Some r) None"
  by (simp add: IssueRejoinTicket_def after_def stubImports_def stubServer_def padding_def
        noNodeNameServer_def stubRejoinRequest_def)

lemma rejoin_run:
  "snd (IssueRejoinTicket stubImports noNodeNameServer stubRejoinRequest) =
     Return (Some \<lparr>RejoinStateDiskKey = ''key of uuid.....................'',
                   RejoinMeasurementSecret = ''key of measurementSecret........''\<rparr>) None"
  by (simp add: IssueRejoinTicket_def after_def stubImports_def stubServer_def padding_def
        noNodeNameServer_def stubRejoinRequest_def)

theorem measurement_secret_shared_witness:
  "GetDataKey stubServer = GetDataKey noNodeNameServer
   \<and> (\<exists>r r'. snd (IssueJoinTicket stubImports stubServer stubRequest) = Return (Some r) None
            \<and> snd (IssueRejoinTicket stubImports noNodeNameServer stubRejoinRequest) =
                Return (Some r') None
            \<and> MeasurementSecret r = RejoinMeasurementSecret r'
            \<and> MeasurementSecret r = ''key of measurementSecret........'')
   \<and> (\<exists>r r'. snd (IssueJoinTicket stubImports stubServer stubRequest) = Return (Some r) None
            \<and> snd (IssueJoinTicket stubImports stubServer workerRequest) = Return (Some r') None
            \<and> MeasurementSecret r = MeasurementSecret r')"
proof -
  have same: "GetDataKey stubServer = GetDataKey noNodeNameServer"
    by (simp add: noNodeNameServer_def)
  from stub_response obtain r
    where r: "snd (IssueJoinTicket stubImports stubServer stubRequest) = Return (Some r) None"
      and ms: "MeasurementSecret r = ''key of measurementSecret........''"
    by (elim exE conjE)
  from worker_run obtain w
    where w: "snd (IssueJoinTicket stubImports stubServer workerRequest) = Return (Some w) None"
    by (elim exE conjE)
  from rejoin_response obtain j
    where j: "snd (IssueRejoinTicket stubImports noNodeNameServer stubRejoinRequest) =
              Return (Some j) None"
    by (elim exE)
  note rejoins = measurement_secret_shared
    [where im = stubImports and s = stubServer and req = stubRequest
       and s' = noNodeNameServer and rejoin = stubRejoinRequest,
     THEN conjunct2, THEN conjunct2, THEN mp, OF same,
     THEN conjunct2, THEN conjunct1, rule_format, OF conjI, OF r j]
  note joins = measurement_secret_shared
    [where im = stubImports and s = stubServer and req = stubRequest
       and s' = stubServer and req' = workerRequest,
     THEN conjunct2, THEN conjunct2, THEN mp, OF refl,
     THEN conjunct1, rule_format, OF conjI, OF r w]
  from r j rejoins ms
  have first: "\<exists>r r'. snd (IssueJoinTicket stubImports stubServer stubRequest) = Return (Some r) None
            \<and> snd (IssueRejoinTicket stubImports noNodeNameServer stubRejoinRequest) =
                Return (Some r') None
            \<and> MeasurementSecret r = RejoinMeasurementSecret r'
            \<and> MeasurementSecret r = ''key of measurementSecret........''"
    by (intro exI conjI)
  from r w joins
  have second: "\<exists>r r'. snd (IssueJoinTicket stubImports stubServer stubRequest) = Return (Some r) None
            \<and> snd (IssueJoinTicket stubImports stubServer workerRequest) = Return (Some r') None
            \<and> MeasurementSecret r = MeasurementSecret r'"
    by (intro exI conjI)
  show ?thesis using same first second by (intro conjI)
qed

subsection \<open>The state disk key\<close>

text \<open>
  C2: the derivation of the state disk key is deterministic. The closure of the
  recovery command hands master secret, salt, the prefixed UUID and the fixed length to
  the key derivation and uses nothing else, so equal inputs give equal keys. On the
  side of the join service, servers with the same key getter hand out the same state
  disk key for the same disk, in a join and in a rejoin response. And when the key
  getter of a server derives its keys from the master secret and salt under the prefix
  of data encryption keys, the key the recovery command derives for a disk is the key
  the join service issued for it.
\<close>

theorem state_disk_key_deterministic:
  "(masterKey' = masterKey \<and> salt' = salt \<and> uuid' = uuid \<longrightarrow>
      getStateDiskKeyFunc im masterKey' salt' uuid' = getStateDiskKeyFunc im masterKey salt uuid)
   \<and> getStateDiskKeyFunc im masterKey salt uuid =
       DeriveKey im masterKey salt (DEKPrefix im @ uuid) (StateDiskKeyLength im)
   \<and> (GetDataKey s = GetDataKey s' \<and> DiskUuid req' = DiskUuid req \<and>
      RejoinDiskUuid rejoin = DiskUuid req \<longrightarrow>
        (\<forall>r e r' e'.
           snd (IssueJoinTicket im s req) = Return (Some r) e \<and>
           snd (IssueJoinTicket im s' req') = Return (Some r') e' \<longrightarrow>
           StateDiskKey r = StateDiskKey r')
      \<and> (\<forall>r e r' e'.
           snd (IssueJoinTicket im s req) = Return (Some r) e \<and>
           snd (IssueRejoinTicket im s' rejoin) = Return (Some r') e' \<longrightarrow>
           StateDiskKey r = RejoinStateDiskKey r'))
   \<and> ((\<forall>id n. GetDataKey s id n = DeriveKey im masterKey salt (DEKPrefix im @ id) n) \<longrightarrow>
        (\<forall>r e. snd (IssueJoinTicket im s req) = Return (Some r) e \<longrightarrow>
           getStateDiskKeyFunc im masterKey salt (DiskUuid req) = Inr (StateDiskKey r)))"
proof (intro conjI impI allI)
  assume "masterKey' = masterKey \<and> salt' = salt \<and> uuid' = uuid"
  then show "getStateDiskKeyFunc im masterKey' salt' uuid' =
             getStateDiskKeyFunc im masterKey salt uuid"
    by simp
next
  show "getStateDiskKeyFunc im masterKey salt uuid =
       DeriveKey im masterKey salt (DEKPrefix im @ uuid) (StateDiskKeyLength im)"
    by (simp add: getStateDiskKeyFunc_def)
next
  fix r e r' e'
  assume same: "GetDataKey s = GetDataKey s' \<and> DiskUuid req' = DiskUuid req \<and>
                RejoinDiskUuid rejoin = DiskUuid req"
    and ret: "snd (IssueJoinTicket im s req) = Return (Some r) e \<and>
              snd (IssueJoinTicket im s' req') = Return (Some r') e'"
  from ret join_success [of im s req r e] join_success [of im s' req' r' e'] same
  show "StateDiskKey r = StateDiskKey r'" by simp
next
  fix r e r' e'
  assume same: "GetDataKey s = GetDataKey s' \<and> DiskUuid req' = DiskUuid req \<and>
                RejoinDiskUuid rejoin = DiskUuid req"
    and ret: "snd (IssueJoinTicket im s req) = Return (Some r) e \<and>
              snd (IssueRejoinTicket im s' rejoin) = Return (Some r') e'"
  from ret join_success [of im s req r e] rejoin_success [of im s' rejoin r' e'] same
  show "StateDiskKey r = RejoinStateDiskKey r'" by simp
next
  fix r e
  assume kms: "\<forall>id n. GetDataKey s id n = DeriveKey im masterKey salt (DEKPrefix im @ id) n"
    and ret: "snd (IssueJoinTicket im s req) = Return (Some r) e"
  from join_success [OF ret]
  have "GetDataKey s (DiskUuid req) (StateDiskKeyLength im) = Inr (StateDiskKey r)" by simp
  with kms show "getStateDiskKeyFunc im masterKey salt (DiskUuid req) = Inr (StateDiskKey r)"
    by (simp add: getStateDiskKeyFunc_def)
qed



lemma deriving_run:
  "\<exists>r. snd (IssueJoinTicket stubImports derivingServer stubRequest) = Return (Some r) None
       \<and> StateDiskKey r = ''key-uuidsaltmaster secret.......''"
  by (simp add: run_defs derivingServer_def)

theorem state_disk_key_deterministic_witness:
  "getStateDiskKeyFunc stubImports ''master secret'' ''salt'' ''uuid'' =
     Inr ''key-uuidsaltmaster secret.......''
   \<and> (\<forall>id n. GetDataKey derivingServer id n =
         DeriveKey stubImports ''master secret'' ''salt'' (DEKPrefix stubImports @ id) n)
   \<and> (\<exists>r. snd (IssueJoinTicket stubImports derivingServer stubRequest) = Return (Some r) None
         \<and> getStateDiskKeyFunc stubImports ''master secret'' ''salt'' (DiskUuid stubRequest) =
             Inr (StateDiskKey r))
   \<and> GetDataKey stubServer = GetDataKey noNodeNameServer
   \<and> RejoinDiskUuid stubRejoinRequest = DiskUuid stubRequest
   \<and> (\<exists>r r'. snd (IssueJoinTicket stubImports stubServer stubRequest) = Return (Some r) None
         \<and> snd (IssueRejoinTicket stubImports noNodeNameServer stubRejoinRequest) =
             Return (Some r') None
         \<and> StateDiskKey r = RejoinStateDiskKey r')"
proof -
  note derived = state_disk_key_deterministic
    [where im = stubImports and s = derivingServer and req = stubRequest
       and masterKey = "''master secret''" and salt = "''salt''" and uuid = "''uuid''"]
  have "getStateDiskKeyFunc stubImports ''master secret'' ''salt'' ''uuid'' =
        DeriveKey stubImports ''master secret'' ''salt'' (DEKPrefix stubImports @ ''uuid'')
          (StateDiskKeyLength stubImports)"
    by (rule derived [THEN conjunct2, THEN conjunct1])
  then have key: "getStateDiskKeyFunc stubImports ''master secret'' ''salt'' ''uuid'' =
     Inr ''key-uuidsaltmaster secret.......''"
    by (simp add: stubImports_def padding_def)
  have kms: "\<forall>id n. GetDataKey derivingServer id n =
         DeriveKey stubImports ''master secret'' ''salt'' (DEKPrefix stubImports @ id) n"
    by (simp add: derivingServer_def)
  from deriving_run obtain r
    where r: "snd (IssueJoinTicket stubImports derivingServer stubRequest) = Return (Some r) None"
    by (elim exE conjE)
  note recovered = derived
    [THEN conjunct2, THEN conjunct2, THEN conjunct2, THEN mp, OF kms, rule_format, OF r]
  from r recovered
  have issued: "\<exists>r. snd (IssueJoinTicket stubImports derivingServer stubRequest) =
           Return (Some r) None
         \<and> getStateDiskKeyFunc stubImports ''master secret'' ''salt'' (DiskUuid stubRequest) =
             Inr (StateDiskKey r)"
    by (intro exI conjI)
  have same: "GetDataKey stubServer = GetDataKey noNodeNameServer"
    by (simp add: noNodeNameServer_def)
  have uuid: "RejoinDiskUuid stubRejoinRequest = DiskUuid stubRequest"
    by (simp add: stubRejoinRequest_def stubRequest_def)
  from stub_response obtain j
    where j: "snd (IssueJoinTicket stubImports stubServer stubRequest) = Return (Some j) None"
    by (elim exE conjE)
  from rejoin_response obtain k
    where k: "snd (IssueRejoinTicket stubImports noNodeNameServer stubRejoinRequest) =
              Return (Some k) None"
    by (elim exE)
  have hyp: "GetDataKey stubServer = GetDataKey noNodeNameServer \<and>
             DiskUuid stubRequest = DiskUuid stubRequest \<and>
             RejoinDiskUuid stubRejoinRequest = DiskUuid stubRequest"
    using same uuid by simp
  note shared = state_disk_key_deterministic
    [where im = stubImports and s = stubServer and req = stubRequest
       and s' = noNodeNameServer and rejoin = stubRejoinRequest and req' = stubRequest,
     THEN conjunct2, THEN conjunct2, THEN conjunct1, THEN mp, OF hyp,
     THEN conjunct2, rule_format, OF conjI, OF j k]
  from j k shared
  have both: "\<exists>r r'. snd (IssueJoinTicket stubImports stubServer stubRequest) = Return (Some r) None
         \<and> snd (IssueRejoinTicket stubImports noNodeNameServer stubRejoinRequest) =
             Return (Some r') None
         \<and> StateDiskKey r = RejoinStateDiskKey r'"
    by (intro exI conjI)
  show ?thesis using key kms issued same uuid both by (intro conjI)
qed

end
